(* ===== verification/Prelude.thy ===== *)
theory Prelude
  imports Main
begin

text \<open>
  Shared vocabulary of the Workasana backend model: the JSON values that
  request bodies and responses carry, the JavaScript truthiness test the
  handlers apply to body fields (\<open>if (!name || ...)\<close>), the object-field
  lookup of \<open>const {a, b} = req.body\<close>, decimal printing of numbers (as
  \<open>String(n)\<close> does when Mongoose casts a number to a string), HTTP
  responses, and the generic lemmas on lists and options that the component
  theories share.
\<close>

section \<open>Names of the model's types\<close>

type_synonym oid = nat          \<comment> \<open>a MongoDB ObjectId, drawn from a counter\<close>
type_synonym ms = nat           \<comment> \<open>\<open>Date.now()\<close>: milliseconds\<close>
type_synonym secs = nat         \<comment> \<open>JWT \<open>NumericDate\<close>: seconds\<close>

named_theorems model_simps \<open>equations of the model's operations used by the component proofs\<close>

section \<open>JSON values\<close>

text \<open>
  A parsed JSON body (\<open>express.json()\<close>) and a serialised response body.
  Numbers are integers in the model; an object keeps its members in order,
  duplicates included, as \<open>JSON.parse\<close> sees them.
\<close>

datatype json =
    JNull
  | JBool bool
  | JNum int
  | JStr string
  | JArr "json list"
  | JObj "(string \<times> json) list"

text \<open>
  Destructuring \<open>const {email} = req.body\<close> reads the member of that name;
  \<open>JSON.parse\<close> keeps the last of duplicated members, so the lookup runs over
  the reversed member list. An absent member is \<open>undefined\<close>, here \<open>None\<close>.
\<close>

definition get_field :: "(string \<times> json) list \<Rightarrow> string \<Rightarrow> json option" where
  "get_field kvs k = map_of (rev kvs) k"

text \<open>JavaScript truthiness: \<open>undefined\<close>, \<open>null\<close>, \<open>false\<close>, \<open>0\<close> and \<open>""\<close> are falsy.\<close>

fun js_truthy :: "json option \<Rightarrow> bool" where
  "js_truthy None = False"
| "js_truthy (Some JNull) = False"
| "js_truthy (Some (JBool b)) = b"
| "js_truthy (Some (JNum n)) = (n \<noteq> 0)"
| "js_truthy (Some (JStr s)) = (s \<noteq> [])"
| "js_truthy (Some (JArr _)) = True"
| "js_truthy (Some (JObj _)) = True"

text \<open>\<open>typeof v\<close>, which library argument checks print in their messages.\<close>

fun js_typeof :: "json option \<Rightarrow> string" where
  "js_typeof None = ''undefined''"
| "js_typeof (Some (JBool _)) = ''boolean''"
| "js_typeof (Some (JNum _)) = ''number''"
| "js_typeof (Some (JStr _)) = ''string''"
| "js_typeof (Some JNull) = ''object''"
| "js_typeof (Some (JArr _)) = ''object''"
| "js_typeof (Some (JObj _)) = ''object''"

section \<open>Decimal printing\<close>

definition digit_char :: "nat \<Rightarrow> char" where
  "digit_char d = ''0123456789'' ! d"

fun show_nat :: "nat \<Rightarrow> string" where
  "show_nat n =
     (if n < 10 then [digit_char n] else show_nat (n div 10) @ [digit_char (n mod 10)])"

definition show_int :: "int \<Rightarrow> string" where
  "show_int i = (if i < 0 then CHR ''-'' # show_nat (nat (- i)) else show_nat (nat i))"

declare show_nat.simps [simp del]

lemma show_nat_small [simp]: "n < 10 \<Longrightarrow> show_nat n = [digit_char n]"
  by (subst show_nat.simps) simp

lemma show_nat_large [simp]:
  "10 \<le> n \<Longrightarrow> show_nat n = show_nat (n div 10) @ [digit_char (n mod 10)]"
  by (subst show_nat.simps) simp

section \<open>Thrown errors\<close>

text \<open>
  A computation that may throw: \<open>Inl\<close> carries the error's \<open>message\<close>, which the
  handlers' \<open>catch\<close> blocks copy into the response. \<open>ebind\<close> is \<open>await\<close> inside
  a \<open>try\<close>: the first throw ends the sequence.
\<close>

definition ebind :: "'e + 'a \<Rightarrow> ('a \<Rightarrow> 'e + 'b) \<Rightarrow> 'e + 'b" where
  "ebind m f = (case m of Inl e \<Rightarrow> Inl e | Inr a \<Rightarrow> f a)"

fun emap_list :: "('a \<Rightarrow> 'e + 'b) \<Rightarrow> 'a list \<Rightarrow> 'e + 'b list" where
  "emap_list f [] = Inr []"
| "emap_list f (x # xs) = ebind (f x) (\<lambda>y. ebind (emap_list f xs) (\<lambda>ys. Inr (y # ys)))"

lemma ebind_Inl [simp]: "ebind (Inl e) f = Inl e"
  by (simp add: ebind_def)

lemma ebind_Inr [simp]: "ebind (Inr a) f = f a"
  by (simp add: ebind_def)

lemma ebind_eq_Inr_iff:
  "ebind m f = Inr b \<longleftrightarrow> (\<exists>a. m = Inr a \<and> f a = Inr b)"
  by (cases m) auto

lemma ebind_eq_Inl_iff:
  "ebind m f = Inl e \<longleftrightarrow> m = Inl e \<or> (\<exists>a. m = Inr a \<and> f a = Inl e)"
  by (cases m) auto

section \<open>HTTP responses\<close>

text \<open>
  \<open>res.status(s).json(b)\<close>; \<open>res.json(b)\<close> alone answers 200. A handler whose
  promise rejects outside any \<open>try\<close> sends nothing (Express 4 does not catch
  the rejection of an async handler): that is a response of \<open>None\<close>.
\<close>

record 'b response =
  status :: nat
  body :: 'b

definition respond :: "nat \<Rightarrow> 'b \<Rightarrow> 'b response" where
  "respond s b = \<lparr>status = s, body = b\<rparr>"

definition message :: "string \<Rightarrow> json" where
  "message m = JObj [(''message'', JStr m)]"

definition error_body :: "string \<Rightarrow> json" where
  "error_body m = JObj [(''error'', JStr m)]"

section \<open>Generic lemmas\<close>

lemma get_field_Nil [simp]: "get_field [] k = None"
  by (simp add: get_field_def)

lemma get_field_snoc [simp]:
  "get_field (kvs @ [(k', v)]) k = (if k = k' then Some v else get_field kvs k)"
  by (simp add: get_field_def)

lemma get_field_Cons:
  "get_field ((k', v) # kvs) k =
     (case get_field kvs k of None \<Rightarrow> (if k = k' then Some v else None) | Some w \<Rightarrow> Some w)"
  by (auto simp add: get_field_def map_add_def split: option.split)

lemma find_Some_in_set [intro]: "find P xs = Some x \<Longrightarrow> x \<in> set xs"
  by (induction xs) (auto split: if_splits)

lemma find_Some_sat: "find P xs = Some x \<Longrightarrow> P x"
  by (induction xs) (auto split: if_splits)

lemma find_None_iff': "find P xs = None \<longleftrightarrow> (\<forall>x \<in> set xs. \<not> P x)"
  by (induction xs) auto

lemma find_append_None:
  "find P xs = None \<Longrightarrow> find P (xs @ ys) = find P ys"
  by (induction xs) (auto split: if_splits)

lemma replicate_numeral: "replicate (numeral n) x = x # replicate (pred_numeral n) x"
  by (simp add: numeral_eq_Suc)

lemma show_nat_nonempty [simp]: "show_nat n \<noteq> []"
  by (subst show_nat.simps) simp

text \<open>Decimal digits: the characters \<open>show_nat\<close> prints and the value they denote.\<close>

lemma digit_char_props:
  assumes "d < 10"
  shows "digit_char d \<in> set ''0123456789'' \<and> of_char (digit_char d) - (48::nat) = d"
proof -
  have "d \<in> {0, 1, 2, 3, 4, 5, 6, 7, 8, 9}" using assms by auto
  then show ?thesis by (auto simp: digit_char_def)
qed

lemma show_nat_digits: "list_all (\<lambda>c. c \<in> set ''0123456789'') (show_nat n) \<and>
   foldl (\<lambda>n c. 10 * n + (of_char c - 48)) 0 (show_nat n) = n"
proof (induction n rule: show_nat.induct)
  case (1 n)
  show ?case
  proof (cases "n < 10")
    case True
    then show ?thesis using digit_char_props [OF True] by simp
  next
    case False
    then have "n mod 10 < 10" by simp
    then show ?thesis using 1 False digit_char_props [of "n mod 10"] by simp
  qed
qed

end
