(* ===== verification/Hasher.thy ===== *)
theory Hasher
  imports Prelude
begin

text \<open>
  The password hasher: \<open>bcrypt.hash(password, 10)\<close> and
  \<open>bcrypt.compare(password, user.password)\<close> of the \<open>bcryptjs\<close> library, as
  \<open>src/index.js\<close> calls them in \<open>/signup\<close> and \<open>/login\<close>. The library is not
  part of the repository; the model follows its contract (spec section 4.1)
  and the argument checks and key schedule of bcrypt that decide which
  passwords verify.

  Hashing is perfect, in the style of the \<open>Hash\<close> constructor of Paulson's
  protocol theories: a digest is a constructor term that records the cost,
  the salt and the key material it was computed from, so two digests are
  equal only when all three are, and nothing but a compare with the right key
  material recovers a match. The salt is drawn by the caller (the server's
  random generator, see \<open>Auth\<close>).

  bcrypt's key material is not the password itself: Blowfish's key schedule
  reads 72 bytes of the password's bytes followed by a NUL terminator, cycled.
  Longer passwords are silently truncated; this is why spec property 8.2
  ("verify(P', hash(P)) is false for every P' different from P") holds only
  for passwords shorter than 72 bytes without NUL bytes.
\<close>

section \<open>Digests\<close>

datatype digest =
    BCrypt nat nat string   \<comment> \<open>cost, salt, the 72 bytes of key material\<close>
  | Foreign string          \<comment> \<open>a stored value that is not a 60-character bcrypt string\<close>

text \<open>The salt a digest was computed with.\<close>

fun salt_of :: "digest \<Rightarrow> nat option" where
  "salt_of (BCrypt c s k) = Some s"
| "salt_of (Foreign _) = None"

text \<open>Key material: the bytes of the password and a NUL, cycled to 72 bytes.\<close>

definition bcrypt_key :: "string \<Rightarrow> string" where
  "bcrypt_key p = take 72 (concat (replicate 72 (p @ [CHR 0x00])))"

section \<open>Operations\<close>

text \<open>
  \<open>bcrypt.hash(s, rounds)\<close>: a non-string password is rejected with
  \<open>Error("Illegal arguments: " + typeof s + ", number")\<close>.
\<close>

fun bcrypt_hash :: "json option \<Rightarrow> nat \<Rightarrow> nat \<Rightarrow> string + digest" where
  "bcrypt_hash (Some (JStr p)) cost salt = Inr (BCrypt cost salt (bcrypt_key p))"
| "bcrypt_hash v cost salt = Inl (''Illegal arguments: '' @ js_typeof v @ '', number'')"

text \<open>
  \<open>bcrypt.compare(s, hash)\<close>: a non-string candidate is rejected with an
  error; a stored value that is not a bcrypt digest compares false; otherwise
  the candidate is hashed with the stored cost and salt and the results are
  compared.
\<close>

fun bcrypt_compare :: "json option \<Rightarrow> digest \<Rightarrow> string + bool" where
  "bcrypt_compare (Some (JStr p)) (BCrypt cost salt k) =
     Inr (BCrypt cost salt (bcrypt_key p) = BCrypt cost salt k)"
| "bcrypt_compare (Some (JStr p)) (Foreign _) = Inr False"
| "bcrypt_compare v _ = Inl (''Illegal arguments: '' @ js_typeof v @ '', string'')"

section \<open>Lemmas\<close>

lemma bcrypt_hash_Inr_iff:
  "bcrypt_hash v c s = Inr d \<longleftrightarrow> (\<exists>p. v = Some (JStr p) \<and> d = BCrypt c s (bcrypt_key p))"
  by (cases "(v, c, s)" rule: bcrypt_hash.cases) auto

lemma bcrypt_compare_JStr:
  "bcrypt_compare (Some (JStr p)) d =
     Inr (case d of BCrypt c s k \<Rightarrow> bcrypt_key p = k | Foreign _ \<Rightarrow> False)"
  by (cases d) auto


lemma concat_replicate_prefix:
  "0 < n \<Longrightarrow> \<exists>r. concat (replicate n xs) = xs @ r"
  by (cases n) auto

lemma bcrypt_key_prefix:
  assumes "length p < 72"
  shows "\<exists>r. bcrypt_key p = p @ CHR 0x00 # r"
proof -
  obtain r where r: "concat (replicate 72 (p @ [CHR 0x00])) = (p @ [CHR 0x00]) @ r"
    using concat_replicate_prefix [of 72 "p @ [CHR 0x00]"] by auto
  have "72 - length p = Suc (71 - length p)" using assms by arith
  then have "take 72 ((p @ [CHR 0x00]) @ r) = (p @ [CHR 0x00]) @ take (72 - Suc (length p)) r"
    using assms by simp
  then show ?thesis by (simp add: bcrypt_key_def r)
qed

lemma takeWhile_not_nul:
  "CHR 0x00 \<notin> set p \<Longrightarrow> takeWhile (\<lambda>c. c \<noteq> CHR 0x00) (p @ CHR 0x00 # r) = p"
  by (induction p) auto

lemma bcrypt_key_inj:
  assumes "length p < 72" "length q < 72"
    and "CHR 0x00 \<notin> set p" "CHR 0x00 \<notin> set q"
    and "bcrypt_key p = bcrypt_key q"
  shows "p = q"
proof -
  obtain r s where "bcrypt_key p = p @ CHR 0x00 # r" "bcrypt_key q = q @ CHR 0x00 # s"
    using bcrypt_key_prefix assms(1,2) by blast
  then have "p @ CHR 0x00 # r = q @ CHR 0x00 # s" using assms(5) by simp
  then have "takeWhile (\<lambda>c. c \<noteq> CHR 0x00) (p @ CHR 0x00 # r) =
             takeWhile (\<lambda>c. c \<noteq> CHR 0x00) (q @ CHR 0x00 # s)" by simp
  then show ?thesis using assms(3,4) by (simp add: takeWhile_not_nul)
qed

lemma length_bcrypt_key [simp]: "length (bcrypt_key p) = 72"
proof -
  have "72 \<le> length (concat (replicate 72 (p @ [CHR 0x00])))"
    by (simp add: length_concat sum_list_replicate)
  then show ?thesis by (simp add: bcrypt_key_def)
qed

lemma bcrypt_key_long: "72 \<le> length p \<Longrightarrow> bcrypt_key p = take 72 p"
proof -
  assume long: "72 \<le> length p"
  obtain r where "concat (replicate 72 (p @ [CHR 0x00])) = (p @ [CHR 0x00]) @ r"
    using concat_replicate_prefix [of 72 "p @ [CHR 0x00]"] by auto
  then show ?thesis using long by (simp add: bcrypt_key_def)
qed

section \<open>Properties of the hasher\<close>

text \<open>
  A password verifies against its own digest, whatever the cost and the
  salt (spec 4.1: "both verify successfully against the original plaintext").
\<close>

theorem bcrypt_hash_compare:
  "ebind (bcrypt_hash (Some (JStr p)) c s) (bcrypt_compare (Some (JStr p))) = Inr True"
  by simp

text \<open>
  C16. A different password does not verify, provided both are shorter than
  72 bytes and contain no NUL byte (spec property 8.2, within bcrypt's limits).
\<close>

theorem bcrypt_rejects_other:
  assumes "p \<noteq> q" "length p < 72" "length q < 72" "CHR 0x00 \<notin> set p" "CHR 0x00 \<notin> set q"
  shows "ebind (bcrypt_hash (Some (JStr p)) c s) (bcrypt_compare (Some (JStr q))) = Inr False"
  using assms bcrypt_key_inj [of q p] by auto

theorem bcrypt_rejects_other_witness:
  "ebind (bcrypt_hash (Some (JStr ''secret123'')) 10 0) (bcrypt_compare (Some (JStr ''wrong''))) = Inr False"
  by (rule bcrypt_rejects_other) simp_all

text \<open>
  C17. Passwords of 72 bytes or more are compared on their first 72 bytes
  only: any other password with the same first 72 bytes verifies. Spec
  property 8.2 does not hold for long passwords.
\<close>

theorem bcrypt_truncation:
  assumes "72 \<le> length p" "72 \<le> length q" "take 72 q = take 72 p"
  shows "ebind (bcrypt_hash (Some (JStr p)) c s) (bcrypt_compare (Some (JStr q))) = Inr True"
  using assms by (simp add: bcrypt_key_long)

theorem bcrypt_truncation_witness:
  "replicate 72 CHR ''a'' @ ''1'' \<noteq> replicate 72 CHR ''a'' @ ''2'' \<and>
   ebind (bcrypt_hash (Some (JStr (replicate 72 CHR ''a'' @ ''1''))) 10 0)
     (bcrypt_compare (Some (JStr (replicate 72 CHR ''a'' @ ''2'')))) = Inr True"
  using bcrypt_truncation [of "replicate 72 CHR ''a'' @ ''1''" "replicate 72 CHR ''a'' @ ''2''" 10 0]
  by simp

end
