(* ===== verification/Store.thy ===== *)
theory Store
  imports Hasher "HOL-Library.List_Lexorder" "HOL-Library.Char_ord"
begin

text \<open>
  The credential store: the \<open>User\<close> model (\<open>./models/userSchema\<close>, required
  from \<open>src/index.js\<close> line 26; not in the repository, modelled from spec
  sections 3 and 4.2: \<open>name\<close>, \<open>email\<close> and \<open>password\<close> strings, a unique
  index on \<open>email\<close>) and the Mongoose calls the handlers make on it:
  \<open>User.findOne({email})\<close>, \<open>User.findById(id)\<close>, \<open>User.find()\<close>,
  \<open>new User(...)\<close> and \<open>save()\<close>, each with \<open>.select("-password")\<close> where
  the handler asks for it.

  The store is an extensible record, so that the server state of \<open>Auth\<close>
  extends it and the operations here apply to it unchanged. Documents keep
  insertion order, the order in which a collection scan (and so
  \<open>findOne\<close>) meets them. \<open>db_up\<close> is false when the connection is lost after
  start-up: every operation then throws (Mongoose buffers the command and
  fails it after 10 s).

  The query filter \<open>{email}\<close> takes the body's \<open>email\<close> value as it is, not
  only a string: Mongoose casts it for a String path. A number or boolean
  becomes its string, an array becomes \<open>$in\<close>, an object whose keys are
  operators (\<open>$ne\<close>, \<open>$gt\<close>, ...) is a query condition, an \<open>undefined\<close> key
  is dropped from the filter, and anything else is a cast error.
\<close>

section \<open>Documents and the store\<close>

record user =
  user_id :: oid
  name :: string
  email :: string
  password :: digest

record store =
  users :: "user list"
  db_up :: bool
  next_oid :: oid

text \<open>The error of an operation issued while the connection is down.\<close>

definition db_timeout :: "string \<Rightarrow> string \<Rightarrow> string" where
  "db_timeout coll op = ''Operation `'' @ coll @ ''.'' @ op @ ''()` buffering timed out after 10000ms''"

section \<open>Casting a filter value for a String path\<close>

fun cast_str :: "json \<Rightarrow> string + string" where
  "cast_str (JStr s) = Inr s"
| "cast_str (JNum n) = Inr (show_int n)"
| "cast_str (JBool b) = Inr (if b then ''true'' else ''false'')"
| "cast_str _ = Inl ''Cast to string failed for value at path \"email\" for model \"User\"''"

text \<open>Boolean cast of Mongoose (\<open>$exists\<close>).\<close>

fun cast_bool :: "json \<Rightarrow> string + bool" where
  "cast_bool (JBool b) = Inr b"
| "cast_bool (JNum n) =
     (if n = 1 then Inr True else if n = 0 then Inr False
      else Inl ''Cast to Boolean failed'')"
| "cast_bool (JStr s) =
     (if s \<in> {''true'', ''1'', ''yes''} then Inr True
      else if s \<in> {''false'', ''0'', ''no''} then Inr False
      else Inl ''Cast to Boolean failed'')"
| "cast_bool _ = Inl ''Cast to Boolean failed''"

text \<open>
  Equality with a value: \<open>null\<close> matches no stored email (every stored email is
  a string), an array is \<open>$in\<close> its cast elements.
\<close>

fun match_value :: "json \<Rightarrow> string + (string \<Rightarrow> bool)" where
  "match_value JNull = Inr (\<lambda>_. False)"
| "match_value (JArr vs) =
     ebind (emap_list (\<lambda>v. case v of JNull \<Rightarrow> Inr None | _ \<Rightarrow> map_sum id Some (cast_str v)) vs)
       (\<lambda>cs. Inr (\<lambda>s. Some s \<in> set cs))"
| "match_value v = ebind (cast_str v) (\<lambda>t. Inr (\<lambda>s. s = t))"

definition compare_with :: "(string \<Rightarrow> string \<Rightarrow> bool) \<Rightarrow> json \<Rightarrow> string + (string \<Rightarrow> bool)" where
  "compare_with R v =
     (case v of JNull \<Rightarrow> Inr (\<lambda>_. False) | _ \<Rightarrow> ebind (cast_str v) (\<lambda>t. Inr (\<lambda>s. R s t)))"

text \<open>One query operator of a condition object.\<close>

fun op_pred :: "string \<times> json \<Rightarrow> string + (string \<Rightarrow> bool)" where
  "op_pred (k, v) =
     (if k = ''$eq'' \<or> k = ''$in'' then match_value v
      else if k = ''$ne'' \<or> k = ''$nin'' then map_sum id (\<lambda>P s. \<not> P s) (match_value v)
      else if k = ''$exists'' then ebind (cast_bool v) (\<lambda>b. Inr (\<lambda>_. b))
      else if k = ''$gt'' then compare_with (\<lambda>s t. t < s) v
      else if k = ''$gte'' then compare_with (\<lambda>s t. t \<le> s) v
      else if k = ''$lt'' then compare_with (\<lambda>s t. s < t) v
      else if k = ''$lte'' then compare_with (\<lambda>s t. s \<le> t) v
      else Inl (''Can't use '' @ k @ '' with String.''))"

definition is_operator :: "string \<Rightarrow> bool" where
  "is_operator k = (take 1 k = ''$'')"

text \<open>The filter \<open>{email: v}\<close> as a predicate on stored emails.\<close>

fun email_filter :: "json option \<Rightarrow> string + (string \<Rightarrow> bool)" where
  "email_filter None = Inr (\<lambda>_. True)"
| "email_filter (Some (JObj kvs)) =
     (if list_ex (\<lambda>kv. is_operator (fst kv)) kvs
      then ebind (emap_list op_pred kvs) (\<lambda>Ps. Inr (\<lambda>s. list_all (\<lambda>P. P s) Ps))
      else Inl ''Cast to string failed for value at path \"email\" for model \"User\"'')"
| "email_filter (Some v) = match_value v"

section \<open>Operations\<close>

text \<open>\<open>User.findOne({email})\<close>: the first document in natural order that matches.\<close>

definition user_findOne :: "'a store_scheme \<Rightarrow> json option \<Rightarrow> string + user option" where
  "user_findOne st v =
     (if \<not> db_up st then Inl (db_timeout ''users'' ''findOne'')
      else ebind (email_filter v) (\<lambda>P. Inr (find (\<lambda>u. P (email u)) (users st))))"

text \<open>The public projection \<open>.select("-password")\<close>, as JSON.\<close>

definition user_public :: "user \<Rightarrow> json" where
  "user_public u =
     JObj [(''_id'', JStr (show_nat (user_id u))), (''name'', JStr (name u)), (''email'', JStr (email u))]"

text \<open>\<open>User.findById(id).select("-password")\<close>: \<open>null\<close> when there is none.\<close>

definition user_findById_public :: "'a store_scheme \<Rightarrow> oid \<Rightarrow> string + json" where
  "user_findById_public st i =
     (if \<not> db_up st then Inl (db_timeout ''users'' ''findOne'')
      else Inr (case find (\<lambda>u. user_id u = i) (users st) of
                  None \<Rightarrow> JNull | Some u \<Rightarrow> user_public u))"

text \<open>\<open>User.find().select("-password")\<close>.\<close>

definition user_find_public :: "'a store_scheme \<Rightarrow> string + json" where
  "user_find_public st =
     (if \<not> db_up st then Inl (db_timeout ''users'' ''find'') else Inr (JArr (map user_public (users st))))"

text \<open>
  Casting a document field of \<open>new User({name, email, password})\<close>: an
  absent, \<open>null\<close> or empty value fails the \<open>required\<close> validator, a value
  that does not cast to a string fails the cast.
\<close>

definition required_error :: "string \<Rightarrow> string" where
  "required_error path = ''User validation failed: '' @ path @ '': Path '' @ path @ '' is required.''"

fun cast_field :: "string \<Rightarrow> json option \<Rightarrow> string + string" where
  "cast_field path None = Inl (required_error path)"
| "cast_field path (Some JNull) = Inl (required_error path)"
| "cast_field path (Some v) =
     (case cast_str v of
        Inl _ \<Rightarrow> Inl (''User validation failed: '' @ path @ '': Cast to string failed'')
      | Inr s \<Rightarrow> if s = [] then Inl (required_error path) else Inr s)"

text \<open>
  \<open>new User({name, email, password})\<close>: a fresh \<open>_id\<close> is drawn at
  construction, whether or not the fields validate; a field that fails is the
  validation error that \<open>save()\<close> reports.
\<close>

definition new_user ::
  "'a store_scheme \<Rightarrow> json option \<Rightarrow> json option \<Rightarrow> digest \<Rightarrow> (string + user) \<times> 'a store_scheme" where
  "new_user st n e d =
     (let i = next_oid st in
      (ebind (cast_field ''name'' n)
         (\<lambda>n'. ebind (cast_field ''email'' e)
           (\<lambda>e'. Inr \<lparr>user_id = i, name = n', email = e', password = d\<rparr>)),
       st\<lparr>next_oid := Suc i\<rparr>))"

text \<open>\<open>save()\<close>: the unique index on \<open>email\<close> refuses a second document with the same email.\<close>

definition user_save :: "'a store_scheme \<Rightarrow> user \<Rightarrow> string + 'a store_scheme" where
  "user_save st u =
     (if \<not> db_up st then Inl (db_timeout ''users'' ''insertOne'')
      else if email u \<in> email ` set (users st)
      then Inl (''E11000 duplicate key error collection: users index: email_1 dup key: { email: \"''
                @ email u @ ''\" }'')
      else Inr (st\<lparr>users := users st @ [u]\<rparr>))"

section \<open>The store invariant\<close>

text \<open>
  No two documents share an email (the unique index), no two share an
  \<open>_id\<close>, and every \<open>_id\<close> was drawn before the counter's current value.
\<close>

definition store_inv :: "'a store_scheme \<Rightarrow> bool" where
  "store_inv st \<longleftrightarrow>
     distinct (map email (users st)) \<and> distinct (map user_id (users st)) \<and>
     (\<forall>u \<in> set (users st). user_id u < next_oid st)"

lemma user_findOne_JStr [simp]:
  "user_findOne st (Some (JStr s)) =
     (if db_up st then Inr (find (\<lambda>u. email u = s) (users st)) else Inl (db_timeout ''users'' ''findOne''))"
  by (simp add: user_findOne_def)

lemma new_user_state [simp]: "snd (new_user st n e d) = st\<lparr>next_oid := Suc (next_oid st)\<rparr>"
  by (simp add: new_user_def Let_def)

lemma new_user_Inr:
  "fst (new_user st n e d) = Inr u \<longleftrightarrow>
     (\<exists>n' e'. cast_field ''name'' n = Inr n' \<and> cast_field ''email'' e = Inr e' \<and>
        u = \<lparr>user_id = next_oid st, name = n', email = e', password = d\<rparr>)"
  by (auto simp: new_user_def Let_def ebind_eq_Inr_iff)

lemma user_save_Inr_iff:
  "user_save st u = Inr st' \<longleftrightarrow>
     db_up st \<and> email u \<notin> email ` set (users st) \<and> st' = st\<lparr>users := users st @ [u]\<rparr>"
  by (auto simp: user_save_def)

lemma store_inv_next_oid:
  "store_inv st \<Longrightarrow> store_inv (st\<lparr>next_oid := Suc (next_oid st)\<rparr>)"
  by (auto simp: store_inv_def)

lemma store_inv_save_fresh:
  assumes "store_inv st" and "user_id u \<notin> user_id ` set (users st)"
    and "user_id u < next_oid st" and "user_save st u = Inr st'"
  shows "store_inv st'"
proof -
  from assms(4) have "st' = st\<lparr>users := users st @ [u]\<rparr>" "email u \<notin> email ` set (users st)"
    by (auto simp: user_save_Inr_iff)
  then show ?thesis using assms(1-3) by (auto simp: store_inv_def)
qed

text \<open>Creating and saving a user keeps the invariant.\<close>

lemma store_inv_new_user_save:
  assumes "store_inv st" and "new_user st n e d = (Inr u, st1)" and "user_save st1 u = Inr st2"
  shows "store_inv st2"
proof -
  have st1: "st1 = st\<lparr>next_oid := Suc (next_oid st)\<rparr>"
    using assms(2) new_user_state [of st n e d] by simp
  have u: "user_id u = next_oid st"
    using assms(2) new_user_Inr [of st n e d u] by auto
  have "user_id u \<notin> user_id ` set (users st)"
    using assms(1) u by (auto simp: store_inv_def)
  moreover have "store_inv st1"
    using assms(1) st1 by (simp add: store_inv_next_oid)
  moreover have "user_id u < next_oid st1" using st1 u by simp
  ultimately show ?thesis
    using store_inv_save_fresh [of st1 u st2] assms(3) st1 by simp
qed

lemma find_email_None:
  "e \<notin> email ` set xs \<Longrightarrow> find (\<lambda>u. email u = e) xs = None"
  by (auto simp: find_None_iff')

lemma find_email_unique:
  assumes "distinct (map email xs)" and "u \<in> set xs"
  shows "find (\<lambda>v. email v = email u) xs = Some u"
  using assms by (induction xs) (auto split: if_splits)

end
