(* ===== verification/Token.thy ===== *)
theory Token
  imports Prelude
begin

text \<open>
  Session tokens: \<open>jwt.sign({id: user._id}, process.env.JWT_SECRET,
  {expiresIn: "7d"})\<close> in \<open>/login\<close> (\<open>src/index.js\<close>, lines 67-69) and the
  \<open>jwt.verify\<close> that the request gate runs (spec sections 3, 4.3, 4.4). The
  \<open>jsonwebtoken\<close> library is not part of the repository: its contract is
  modelled from the spec and from the option handling the call site relies on.

  The signature is a perfect MAC, the \<open>Crypt\<close>/\<open>Hash\<close> reading of Paulson's
  protocol theories: \<open>HS256 k c\<close> is the HMAC of the claims \<open>c\<close> under the
  secret \<open>k\<close>, equal to another signature only when secret and claims are
  equal; any other bytes in the signature segment are \<open>Sig_bytes\<close>.
  Times are seconds (\<open>iat = floor(Date.now() / 1000)\<close>); \<open>"7d"\<close> is
  604800 seconds.
\<close>

section \<open>Tokens\<close>

record claims =
  claim_id :: oid      \<comment> \<open>the \<open>id\<close> claim: the user's \<open>_id\<close>\<close>
  iat :: secs
  exp :: secs

datatype signature =
    HS256 string claims
  | Sig_bytes string

record jwt =
  payload :: claims
  sig :: signature

text \<open>
  What a client presents after the \<open>Bearer\<close> scheme: a compact token that
  decodes to a header, claims and a signature, or a string that does not.
\<close>

datatype credential =
    Compact jwt
  | Opaque string

text \<open>
  A response body: JSON (\<open>res.json\<close>), text (\<open>res.send\<close> of a string and
  Express's own pages), or the body of a successful \<open>/login\<close>,
  \<open>{message, token, user}\<close>, whose \<open>token\<close> member is the compact form of
  the issued token (the model keeps the token itself: its compact form is an
  injective encoding).
\<close>

datatype reply =
    Json json
  | Text string
  | Login_reply string jwt json

definition seven_days :: secs where
  "seven_days = 7 * 24 * 60 * 60"

section \<open>Issue\<close>

text \<open>
  \<open>jwt.sign\<close> refuses an absent or empty secret (\<open>Error("secretOrPrivateKey
  must have a value")\<close>) at the call, not at process start.
\<close>

fun jwt_sign :: "string option \<Rightarrow> ms \<Rightarrow> oid \<Rightarrow> string + jwt" where
  "jwt_sign None now u = Inl ''secretOrPrivateKey must have a value''"
| "jwt_sign (Some k) now u =
     (if k = [] then Inl ''secretOrPrivateKey must have a value''
      else let c = \<lparr>claim_id = u, iat = now div 1000, exp = now div 1000 + seven_days\<rparr>
           in Inr \<lparr>payload = c, sig = HS256 k c\<rparr>)"

section \<open>Verify\<close>

text \<open>The outcome states of the gate (spec section 4.4).\<close>

datatype gate_state =
    NoToken
  | Malformed
  | ExpiredOrInvalidSignature
  | Valid oid

text \<open>
  A credential that does not decode is \<open>Malformed\<close>; one whose signature is
  not the MAC of its claims under the server secret, or verified without a
  secret, or verified after its \<open>exp\<close>, is \<open>ExpiredOrInvalidSignature\<close>;
  otherwise it is \<open>Valid\<close> for its \<open>id\<close> claim ("current time \<open>\<le>\<close> embedded
  expiry").
\<close>

fun jwt_verify :: "string option \<Rightarrow> ms \<Rightarrow> credential \<Rightarrow> gate_state" where
  "jwt_verify key now (Opaque _) = Malformed"
| "jwt_verify None now (Compact t) = ExpiredOrInvalidSignature"
| "jwt_verify (Some k) now (Compact t) =
     (if k = [] \<or> sig t \<noteq> HS256 k (payload t) then ExpiredOrInvalidSignature
      else if now div 1000 \<le> exp (payload t) then Valid (claim_id (payload t))
      else ExpiredOrInvalidSignature)"

section \<open>Lemmas\<close>

lemma jwt_sign_Inr_iff:
  "jwt_sign key now u = Inr t \<longleftrightarrow>
     (\<exists>k. key = Some k \<and> k \<noteq> [] \<and>
        t = \<lparr>payload = \<lparr>claim_id = u, iat = now div 1000, exp = now div 1000 + seven_days\<rparr>,
             sig = HS256 k \<lparr>claim_id = u, iat = now div 1000, exp = now div 1000 + seven_days\<rparr>\<rparr>)"
  by (cases key) (auto simp: Let_def)

lemma jwt_verify_Valid_iff:
  "jwt_verify key now c = Valid u \<longleftrightarrow>
     (\<exists>k t. key = Some k \<and> k \<noteq> [] \<and> c = Compact t \<and> sig t = HS256 k (payload t) \<and>
        now div 1000 \<le> exp (payload t) \<and> u = claim_id (payload t))"
  by (cases c; cases key) auto

lemma jwt_verify_not_NoToken [simp]: "jwt_verify key now c \<noteq> NoToken"
  by (cases c; cases key) auto

lemma seven_days_eq: "seven_days = 604800"
  by (simp add: seven_days_def)

end
