(* ===== verification/Gate.thy ===== *)
theory Gate
  imports Token
begin

text \<open>
  The request gate \<open>verifyToken\<close> of \<open>./middleware/authMiddleware\<close>, which
  \<open>src/index.js\<close> (line 10) imports and puts in front of every route but
  \<open>/\<close>, \<open>/signup\<close> and \<open>/login\<close>. The file is not in the repository; the
  model follows spec sections 4.4 and 6: the credential is read from the
  \<open>Authorization\<close> header under the \<open>Bearer\<close> scheme, verified with the
  process secret and clock, and every rejection is one and the same 401
  response; on success the subject becomes \<open>req.userId\<close> and the downstream
  handler runs. The gate reads no store.
\<close>

text \<open>The \<open>Authorization\<close> header: its scheme word and the credential after it.\<close>

type_synonym auth_header = "(string \<times> credential) option"

definition bearer_credential :: "auth_header \<Rightarrow> credential option" where
  "bearer_credential h =
     (case h of None \<Rightarrow> None
      | Some (scheme, c) \<Rightarrow> if scheme = ''Bearer'' then Some c else None)"

definition classify :: "string option \<Rightarrow> ms \<Rightarrow> auth_header \<Rightarrow> gate_state" where
  "classify key now h =
     (case bearer_credential h of None \<Rightarrow> NoToken | Some c \<Rightarrow> jwt_verify key now c)"

definition unauthenticated :: "reply response" where
  "unauthenticated = respond 401 (Json (message ''Unauthorized''))"

text \<open>
  The external decision: reject with \<open>unauthenticated\<close>, or pass the
  subject on as \<open>req.userId\<close>.
\<close>

fun gate_decision :: "gate_state \<Rightarrow> reply response + oid" where
  "gate_decision (Valid u) = Inr u"
| "gate_decision NoToken = Inl unauthenticated"
| "gate_decision Malformed = Inl unauthenticated"
| "gate_decision ExpiredOrInvalidSignature = Inl unauthenticated"

definition verifyToken :: "string option \<Rightarrow> ms \<Rightarrow> auth_header \<Rightarrow> reply response + oid" where
  "verifyToken key now h = gate_decision (classify key now h)"

text \<open>
  The abstract contract of the gate (spec section 4.4): the identity a request
  is admitted under, if any. A request is admitted exactly when it carries,
  under the \<open>Bearer\<close> scheme, a token whose signature is the MAC of its claims
  under the configured non-empty secret and whose expiry has not passed.
\<close>

definition gate_spec :: "string option \<Rightarrow> ms \<Rightarrow> auth_header \<Rightarrow> oid option" where
  "gate_spec key now h =
     (case (key, h) of
        (Some k, Some (scheme, Compact t)) \<Rightarrow>
          if k \<noteq> [] \<and> scheme = ''Bearer'' \<and> sig t = HS256 k (payload t) \<and> now div 1000 \<le> exp (payload t)
          then Some (claim_id (payload t)) else None
      | _ \<Rightarrow> None)"

section \<open>Lemmas\<close>

lemma classify_None [simp]: "classify key now None = NoToken"
  by (simp add: classify_def bearer_credential_def)

lemma classify_Bearer [simp]:
  "classify key now (Some (''Bearer'', c)) = jwt_verify key now c"
  by (simp add: classify_def bearer_credential_def)

lemma gate_decision_Inr_iff: "gate_decision g = Inr u \<longleftrightarrow> g = Valid u"
  by (cases g) auto

lemma gate_decision_Inl: "gate_decision g = Inl r \<Longrightarrow> r = unauthenticated"
  by (cases g) auto

lemma verifyToken_Inr_iff:
  "verifyToken key now h = Inr u \<longleftrightarrow>
     (\<exists>c. h = Some (''Bearer'', c) \<and> jwt_verify key now c = Valid u)"
  by (auto simp: verifyToken_def classify_def bearer_credential_def gate_decision_Inr_iff
           split: option.splits if_splits)

lemma verifyToken_Bearer:
  "verifyToken key now (Some (''Bearer'', c)) = gate_decision (jwt_verify key now c)"
  by (simp add: verifyToken_def)

lemma verifyToken_Inl: "verifyToken key now h = Inl r \<Longrightarrow> r = unauthenticated"
  by (simp add: verifyToken_def gate_decision_Inl)

lemma verifyToken_accepts_iff:
  "verifyToken key now h = Inr u \<longleftrightarrow>
     (\<exists>k t. key = Some k \<and> k \<noteq> [] \<and> h = Some (''Bearer'', Compact t) \<and>
        sig t = HS256 k (payload t) \<and> now div 1000 \<le> exp (payload t) \<and> u = claim_id (payload t))"
  by (auto simp: verifyToken_Inr_iff jwt_verify_Valid_iff)

lemma gate_decision_no_key [simp]: "gate_decision (jwt_verify None now c) = Inl unauthenticated"
  by (cases c) auto

text \<open>The classification into gate states implements the abstract contract.\<close>

lemma verifyToken_refines:
  "verifyToken key now h = (case gate_spec key now h of None \<Rightarrow> Inl unauthenticated | Some u \<Rightarrow> Inr u)"
  by (cases key; auto simp: gate_spec_def verifyToken_def classify_def bearer_credential_def
           split: option.split prod.split credential.split)

section \<open>Properties of the gate on issued tokens\<close>

text \<open>
  C2. A token issued by \<open>jwt.sign\<close> with \<open>expiresIn: "7d"\<close> (index.js lines
  67-69) is rejected with the 401 response once more than seven days
  (604800 seconds) have passed since its issue (spec property 8.4).
\<close>

theorem gate_rejects_expired:
  assumes "jwt_sign key issued u = Inr t" and "issued div 1000 + 604800 < now div 1000"
  shows "verifyToken key now (Some (''Bearer'', Compact t)) = Inl unauthenticated"
  using assms by (cases key) (auto simp: Let_def verifyToken_Bearer seven_days_eq)

theorem gate_rejects_expired_witness:
  "verifyToken (Some ''k'') 700000000 (Some (''Bearer'', Compact
      \<lparr>payload = \<lparr>claim_id = 1, iat = 0, exp = 604800\<rparr>,
       sig = HS256 ''k'' \<lparr>claim_id = 1, iat = 0, exp = 604800\<rparr>\<rparr>)) = Inl unauthenticated"
  by (rule gate_rejects_expired [where issued = 0 and u = 1]) (simp_all add: seven_days_def Let_def)

text \<open>
  C3. Replacing the signature of a token \<open>jwt.sign\<close> issued by any other
  signature makes the gate answer exactly as it answers a request with no
  token, at any time (spec property 8.5).
\<close>

theorem gate_rejects_tampered_signature:
  assumes "jwt_sign (Some k) issued u = Inr t" and "s \<noteq> sig t"
  shows "verifyToken (Some k) now (Some (''Bearer'', Compact (t\<lparr>sig := s\<rparr>))) =
         verifyToken (Some k) now None"
  using assms by (auto simp: Let_def verifyToken_Bearer verifyToken_def)

theorem gate_rejects_tampered_signature_witness:
  "verifyToken (Some ''k'') 0 (Some (''Bearer'', Compact
      \<lparr>payload = \<lparr>claim_id = 1, iat = 0, exp = 604800\<rparr>, sig = Sig_bytes ''forged''\<rparr>)) =
   verifyToken (Some ''k'') 0 None"
  using gate_rejects_tampered_signature [where issued = 0 and u = 1 and k = "''k''" and now = 0
      and t = "\<lparr>payload = \<lparr>claim_id = 1, iat = 0, exp = 604800\<rparr>,
               sig = HS256 ''k'' \<lparr>claim_id = 1, iat = 0, exp = 604800\<rparr>\<rparr>" and s = "Sig_bytes ''forged''"]
  by (simp add: seven_days_def Let_def)

text \<open>
  C4. Changing any claim of a token \<open>jwt.sign\<close> issued (the subject, the
  issue time or the expiry) while keeping its signature makes the gate reject
  it as if no token had been sent: no user can turn their token into another
  user's, or extend its life.
\<close>

theorem gate_rejects_tampered_payload:
  assumes "jwt_sign (Some k) issued u = Inr t" and "c \<noteq> payload t"
  shows "verifyToken (Some k) now (Some (''Bearer'', Compact (t\<lparr>payload := c\<rparr>))) =
         verifyToken (Some k) now None"
  using assms by (auto simp: Let_def verifyToken_Bearer verifyToken_def)

theorem gate_rejects_tampered_payload_witness:
  "verifyToken (Some ''k'') 0 (Some (''Bearer'', Compact
      \<lparr>payload = \<lparr>claim_id = 2, iat = 0, exp = 604800\<rparr>,
       sig = HS256 ''k'' \<lparr>claim_id = 1, iat = 0, exp = 604800\<rparr>\<rparr>)) =
   verifyToken (Some ''k'') 0 None"
  using gate_rejects_tampered_payload [where issued = 0 and u = 1 and k = "''k''" and now = 0
      and t = "\<lparr>payload = \<lparr>claim_id = 1, iat = 0, exp = 604800\<rparr>,
               sig = HS256 ''k'' \<lparr>claim_id = 1, iat = 0, exp = 604800\<rparr>\<rparr>"
      and c = "\<lparr>claim_id = 2, iat = 0, exp = 604800\<rparr>"]
  by (simp add: seven_days_def Let_def)

end
