(* ===== verification/Auth.thy ===== *)
theory Auth
  imports Store Gate
begin

text \<open>
  The authentication handlers of \<open>src/index.js\<close>: \<open>POST /signup\<close>
  (lines 36-54), \<open>POST /login\<close> (lines 57-79) and \<open>GET /me\<close> (lines 82-85),
  over a server state that extends the store of \<open>Store\<close> with the process-wide
  configuration the handlers read: the salt source of \<open>bcrypt.genSalt\<close>, the
  signing secret \<open>process.env.JWT_SECRET\<close> (\<open>None\<close> when unset) and the clock
  \<open>Date.now()\<close>.

  Each \<open>await\<close> inside a handler's \<open>try\<close> is an \<open>ebind\<close> or a \<open>case\<close> on a
  thrown error, and the \<open>catch\<close> answers 500 with \<open>{error: err.message}\<close>.
  \<open>/me\<close> has no \<open>try\<close>: a failing query leaves the request without a response.
\<close>

section \<open>Server state\<close>

record server = store +
  salt_rng :: nat
  jwt_secret :: "string option"
  clock :: ms

type_synonym body = "(string \<times> json) list"

definition bcrypt_rounds :: nat where
  "bcrypt_rounds = 10"

definition server_error :: "string \<Rightarrow> reply response" where
  "server_error m = respond 500 (Json (error_body m))"

section \<open>POST /signup\<close>

text \<open>
  \<open>if (!name || !email || !password)\<close> answers 400; an existing user for the
  email answers 400; otherwise the password is hashed with a fresh salt, the
  user is built (drawing an \<open>_id\<close>) and saved, and the answer is 201.
\<close>

definition signup :: "'a server_scheme \<Rightarrow> body \<Rightarrow> 'a server_scheme \<times> reply response" where
  "signup st b =
     (let n = get_field b ''name''; e = get_field b ''email''; p = get_field b ''password'' in
      if \<not> js_truthy n \<or> \<not> js_truthy e \<or> \<not> js_truthy p
      then (st, respond 400 (Json (message ''All fields are required'')))
      else case user_findOne st e of
        Inl err \<Rightarrow> (st, server_error err)
      | Inr (Some _) \<Rightarrow> (st, respond 400 (Json (message ''User already exists'')))
      | Inr None \<Rightarrow>
          (case bcrypt_hash p bcrypt_rounds (salt_rng st) of
             Inl err \<Rightarrow> (st, server_error err)
           | Inr d \<Rightarrow>
               (case new_user (st\<lparr>salt_rng := Suc (salt_rng st)\<rparr>) n e d of
                  (r, st1) \<Rightarrow>
                    (case ebind r (user_save st1) of
                       Inl err \<Rightarrow> (st1, server_error err)
                     | Inr st2 \<Rightarrow> (st2, respond 201 (Json (message ''Signup successful! Please login.'')))))))"

section \<open>POST /login\<close>

text \<open>The public identity of the login answer, \<open>{id, name, email}\<close>.\<close>

definition login_user :: "user \<Rightarrow> json" where
  "login_user u =
     JObj [(''id'', JStr (show_nat (user_id u))), (''name'', JStr (name u)), (''email'', JStr (email u))]"

text \<open>
  No user for the email answers 404, a wrong password 401; otherwise a token
  for the user's \<open>_id\<close> is signed and returned with the public identity.
  Login reads the state and changes nothing.
\<close>

definition login :: "'a server_scheme \<Rightarrow> body \<Rightarrow> reply response" where
  "login st b =
     (let e = get_field b ''email''; p = get_field b ''password'' in
      case user_findOne st e of
        Inl err \<Rightarrow> server_error err
      | Inr None \<Rightarrow> respond 404 (Json (message ''User not found''))
      | Inr (Some u) \<Rightarrow>
          (case bcrypt_compare p (password u) of
             Inl err \<Rightarrow> server_error err
           | Inr False \<Rightarrow> respond 401 (Json (message ''Invalid credentials''))
           | Inr True \<Rightarrow>
               (case jwt_sign (jwt_secret st) (clock st) (user_id u) of
                  Inl err \<Rightarrow> server_error err
                | Inr t \<Rightarrow> respond 200 (Login_reply ''Login successful'' t (login_user u)))))"

section \<open>Protected routes and GET /me\<close>

text \<open>
  \<open>app.get(path, verifyToken, handler)\<close>: the gate runs with the process
  secret and clock; on rejection its 401 is the answer, on success the
  handler runs for \<open>req.userId\<close>. A handler's answer is \<open>None\<close> when it
  sends none.
\<close>

definition protected ::
  "'a server_scheme \<Rightarrow> auth_header \<Rightarrow> (oid \<Rightarrow> 'a server_scheme \<times> reply response option)
     \<Rightarrow> 'a server_scheme \<times> reply response option" where
  "protected st h handler =
     (case verifyToken (jwt_secret st) (clock st) h of
        Inl r \<Rightarrow> (st, Some r)
      | Inr u \<Rightarrow> handler u)"

text \<open>\<open>res.json(await User.findById(req.userId).select("-password"))\<close>.\<close>

definition me :: "'a server_scheme \<Rightarrow> oid \<Rightarrow> 'a server_scheme \<times> reply response option" where
  "me st u =
     (st, case user_findById_public st u of
            Inl _ \<Rightarrow> None
          | Inr j \<Rightarrow> Some (respond 200 (Json j)))"

section \<open>The server invariant\<close>

text \<open>
  The store invariant, and: every stored password is a bcrypt digest whose
  salt was drawn before the generator's current value, and no two stored
  digests share a salt.
\<close>

definition server_inv :: "'a server_scheme \<Rightarrow> bool" where
  "server_inv st \<longleftrightarrow> store_inv st \<and> distinct (map (\<lambda>u. salt_of (password u)) (users st)) \<and>
     (\<forall>u \<in> set (users st). \<exists>s. salt_of (password u) = Some s \<and> s < salt_rng st)"

section \<open>Example states\<close>

text \<open>A freshly started server with a secret, and one that has Ada registered.\<close>

definition fresh_server :: server where
  "fresh_server = \<lparr>users = [], db_up = True, next_oid = 0,
                   salt_rng = 0, jwt_secret = Some ''s3cret'', clock = 1700000000000\<rparr>"

definition ada :: user where
  "ada = \<lparr>user_id = 0, name = ''Ada'', email = ''ada@x.com'',
          password = BCrypt bcrypt_rounds 0 (bcrypt_key ''secret123'')\<rparr>"

definition ada_server :: server where
  "ada_server = fresh_server\<lparr>users := [ada], next_oid := 1, salt_rng := 1\<rparr>"

text \<open>Bob registered after Ada with the same password.\<close>

definition bob :: user where
  "bob = \<lparr>user_id = 1, name = ''Bob'', email = ''bob@x.com'',
          password = BCrypt bcrypt_rounds 1 (bcrypt_key ''secret123'')\<rparr>"

definition ada_bob_server :: server where
  "ada_bob_server = fresh_server\<lparr>users := [ada, bob], next_oid := 2, salt_rng := 2\<rparr>"

section \<open>Lemmas\<close>

lemma find_email_member:
  "e \<in> email ` set xs \<Longrightarrow> \<exists>u. find (\<lambda>u. email u = e) xs = Some u"
  by (cases "find (\<lambda>u. email u = e) xs") (auto simp: find_None_iff')

lemma server_inv_bump:
  "server_inv st \<Longrightarrow> server_inv (st\<lparr>salt_rng := Suc (salt_rng st), next_oid := Suc (next_oid st)\<rparr>)"
  by (fastforce simp: server_inv_def store_inv_def)

lemma server_inv_add:
  assumes "server_inv st" "e \<notin> email ` set (users st)"
  shows "server_inv (st\<lparr>salt_rng := Suc (salt_rng st), next_oid := Suc (next_oid st),
           users := users st @ [\<lparr>user_id = next_oid st, name = n, email = e,
                                  password = BCrypt c (salt_rng st) k\<rparr>]\<rparr>)"
proof -
  have "Some (salt_rng st) \<notin> (\<lambda>u. salt_of (password u)) ` set (users st)"
    using assms(1) by (fastforce simp: server_inv_def)
  moreover have "next_oid st \<notin> user_id ` set (users st)"
    using assms(1) by (fastforce simp: server_inv_def store_inv_def)
  ultimately show ?thesis
    using assms by (fastforce simp: server_inv_def store_inv_def)
qed

lemma server_inv_ada: "server_inv ada_server"
  by (simp add: server_inv_def store_inv_def ada_server_def fresh_server_def ada_def)

lemma login_200_token:
  assumes "login st b = respond 200 (Login_reply m t j)"
  shows "\<exists>u k. u \<in> set (users st) \<and> jwt_secret st = Some k \<and> k \<noteq> [] \<and> j = login_user u \<and>
     payload t = \<lparr>claim_id = user_id u, iat = clock st div 1000, exp = clock st div 1000 + seven_days\<rparr> \<and>
     sig t = HS256 k (payload t)"
  using assms
  by (auto simp: login_def Let_def user_findOne_def ebind_eq_Inr_iff jwt_sign_Inr_iff respond_def
                 server_error_def
           split: sum.splits option.splits bool.splits if_splits)

section \<open>Properties of signup\<close>

text \<open>
  C5. At a route behind \<open>verifyToken\<close> (\<open>app.get(path, verifyToken, handler)\<close>),
  a request the gate rejects gets exactly what a request without any token
  gets at any other protected route: the handler does not run and a missing,
  undecodable, forged or expired token cannot be told apart (spec 4.4).
\<close>

theorem gate_uniform_rejection:
  assumes "verifyToken (jwt_secret st) (clock st) h = Inl r"
  shows "protected st h f = protected st None g"
  using assms verifyToken_Inl [OF assms] by (simp add: protected_def verifyToken_def)

theorem gate_uniform_rejection_witness:
  "protected ada_server (Some (''Bearer'', Opaque ''x.y'')) (me ada_server) =
   protected ada_server None (\<lambda>_. (ada_server, None))"
  by (rule gate_uniform_rejection) (simp add: verifyToken_def)


text \<open>
  C8. Every signup request, whatever its body and outcome, keeps the server
  invariant: emails and ids stay unique, and stored digests have pairwise
  distinct salts.
\<close>

theorem signup_server_inv:
  assumes "server_inv st"
  shows "server_inv (fst (signup st b))"
  using assms
  by (auto simp: signup_def Let_def new_user_def user_save_def ebind_eq_Inr_iff bcrypt_hash_Inr_iff
           split: sum.splits option.splits prod.splits if_splits
           intro: server_inv_bump server_inv_add)

theorem signup_server_inv_witness:
  "server_inv (fst (signup ada_server [(''name'', JStr ''Bob''), (''email'', JStr ''bob@x.com''),
                                       (''password'', JStr ''pw'')]))"
  by (rule signup_server_inv [OF server_inv_ada])

text \<open>
  C9. Signing up with an email that is already registered answers 400
  "User already exists" and leaves the state unchanged (spec property 8.6).
\<close>

theorem signup_duplicate:
  assumes "get_field b ''email'' = Some (JStr e)" "e \<noteq> []"
    and "js_truthy (get_field b ''name'')" "js_truthy (get_field b ''password'')"
    and "db_up st" "e \<in> email ` set (users st)"
  shows "signup st b = (st, respond 400 (Json (message ''User already exists'')))"
proof -
  obtain u where "find (\<lambda>u. email u = e) (users st) = Some u"
    using find_email_member assms(6) by blast
  then show ?thesis using assms(1-5) by (simp add: signup_def Let_def)
qed

theorem signup_duplicate_witness:
  "signup ada_server [(''name'', JStr ''Eve''), (''email'', JStr ''ada@x.com''), (''password'', JStr ''x'')] =
   (ada_server, respond 400 (Json (message ''User already exists'')))"
  by (rule signup_duplicate) (simp_all add: get_field_def ada_server_def ada_def fresh_server_def)

text \<open>
  C10. A body missing the name, the email or the password, or carrying a
  falsy value for one of them, answers 400 "All fields are required" and
  changes nothing.
\<close>

theorem signup_missing_field:
  assumes "\<not> js_truthy (get_field b ''name'') \<or> \<not> js_truthy (get_field b ''email'') \<or>
           \<not> js_truthy (get_field b ''password'')"
  shows "signup st b = (st, respond 400 (Json (message ''All fields are required'')))"
  using assms by (auto simp: signup_def Let_def)

theorem signup_missing_field_witness:
  "signup fresh_server [(''name'', JStr ''Ada''), (''email'', JStr ''ada@x.com'')] =
   (fresh_server, respond 400 (Json (message ''All fields are required'')))"
  by (rule signup_missing_field) (simp add: get_field_def)

text \<open>
  C11. A well-formed signup for a new email stores exactly one new user: the
  next \<open>_id\<close>, the name and email as given, and the bcrypt digest of the
  password under cost 10 and a fresh salt; it answers 201.
\<close>

theorem signup_created:
  assumes "get_field b ''name'' = Some (JStr n)" "n \<noteq> []"
    and "get_field b ''email'' = Some (JStr e)" "e \<noteq> []"
    and "get_field b ''password'' = Some (JStr p)" "p \<noteq> []"
    and "db_up st" "e \<notin> email ` set (users st)"
  shows "signup st b =
    (st\<lparr>salt_rng := Suc (salt_rng st), next_oid := Suc (next_oid st),
        users := users st @ [\<lparr>user_id = next_oid st, name = n, email = e,
                               password = BCrypt bcrypt_rounds (salt_rng st) (bcrypt_key p)\<rparr>]\<rparr>,
     respond 201 (Json (message ''Signup successful! Please login.'')))"
  using assms by (simp add: signup_def Let_def find_email_None new_user_def user_save_def)

theorem signup_created_witness:
  "signup fresh_server [(''name'', JStr ''Ada''), (''email'', JStr ''ada@x.com''), (''password'', JStr ''secret123'')] =
   (ada_server, respond 201 (Json (message ''Signup successful! Please login.'')))"
proof -
  have "signup fresh_server [(''name'', JStr ''Ada''), (''email'', JStr ''ada@x.com''), (''password'', JStr ''secret123'')] =
    (fresh_server\<lparr>salt_rng := Suc (salt_rng fresh_server), next_oid := Suc (next_oid fresh_server),
        users := users fresh_server @ [\<lparr>user_id = next_oid fresh_server, name = ''Ada'', email = ''ada@x.com'',
                     password = BCrypt bcrypt_rounds (salt_rng fresh_server) (bcrypt_key ''secret123'')\<rparr>]\<rparr>,
     respond 201 (Json (message ''Signup successful! Please login.'')))"
    by (rule signup_created) (simp_all add: get_field_def fresh_server_def)
  then show ?thesis by (simp add: fresh_server_def ada_server_def ada_def)
qed



section \<open>Properties of login\<close>

text \<open>C12. Login with an email no user has answers 404 "User not found".\<close>

theorem login_not_found:
  assumes "db_up st" "get_field b ''email'' = Some (JStr e)" "e \<notin> email ` set (users st)"
  shows "login st b = respond 404 (Json (message ''User not found''))"
  using assms by (simp add: login_def Let_def find_email_None)

theorem login_not_found_witness:
  "login ada_server [(''email'', JStr ''eve@x.com''), (''password'', JStr ''secret123'')] =
   respond 404 (Json (message ''User not found''))"
  by (rule login_not_found [where e = "''eve@x.com''"])
     (simp_all add: get_field_def ada_server_def fresh_server_def ada_def)

text \<open>
  C13. Login with the right email and a password whose key material differs
  from the stored digest's answers 401 "Invalid credentials".
\<close>

theorem login_wrong_password:
  assumes "db_up st" "get_field b ''email'' = Some (JStr e)" "find (\<lambda>u. email u = e) (users st) = Some u"
    and "get_field b ''password'' = Some (JStr p)" "password u = BCrypt c s k" "bcrypt_key p \<noteq> k"
  shows "login st b = respond 401 (Json (message ''Invalid credentials''))"
  using assms by (simp add: login_def Let_def)

theorem login_wrong_password_witness:
  "login ada_server [(''email'', JStr ''ada@x.com''), (''password'', JStr ''wrong'')] =
   respond 401 (Json (message ''Invalid credentials''))"
proof (rule login_wrong_password [where e = "''ada@x.com''" and u = ada and p = "''wrong''"
                                    and c = bcrypt_rounds and s = 0])
  show "bcrypt_key ''wrong'' \<noteq> bcrypt_key ''secret123''"
    using bcrypt_key_inj [of "''wrong''" "''secret123''"] by auto
qed (simp_all add: get_field_def ada_server_def fresh_server_def ada_def)

text \<open>
  C14. Login with the right email and password, while a non-empty secret is
  configured, answers 200 with a token for the user's \<open>_id\<close>, issued now and
  expiring seven days later, signed with the secret, and the public identity
  \<open>{id, name, email}\<close>, which has no password field.
\<close>

theorem login_success:
  assumes "db_up st" "get_field b ''email'' = Some (JStr e)" "find (\<lambda>u. email u = e) (users st) = Some u"
    and "get_field b ''password'' = Some (JStr p)" "password u = BCrypt c s (bcrypt_key p)"
    and "jwt_secret st = Some k" "k \<noteq> []"
  shows "login st b =
    respond 200 (Login_reply ''Login successful''
      \<lparr>payload = \<lparr>claim_id = user_id u, iat = clock st div 1000, exp = clock st div 1000 + seven_days\<rparr>,
       sig = HS256 k \<lparr>claim_id = user_id u, iat = clock st div 1000, exp = clock st div 1000 + seven_days\<rparr>\<rparr>
      (JObj [(''id'', JStr (show_nat (user_id u))), (''name'', JStr (name u)), (''email'', JStr (email u))]))"
  using assms by (simp add: login_def Let_def login_user_def)

theorem login_success_witness:
  "\<exists>t. login ada_server [(''email'', JStr ''ada@x.com''), (''password'', JStr ''secret123'')] =
     respond 200 (Login_reply ''Login successful'' t
       (JObj [(''id'', JStr ''0''), (''name'', JStr ''Ada''), (''email'', JStr ''ada@x.com'')]))"
  using login_success [of ada_server "[(''email'', JStr ''ada@x.com''), (''password'', JStr ''secret123'')]"
                          "''ada@x.com''" ada "''secret123''" bcrypt_rounds 0 "''s3cret''"]
  by (simp add: get_field_def ada_server_def fresh_server_def ada_def digit_char_def respond_def)

text \<open>
  With \<open>JWT_SECRET\<close> unset, the server still starts and a login with
  correct credentials answers 500 with jsonwebtoken's error message: the
  missing secret is found at the first login, not refused at start-up as
  spec section 4.3 requires.
\<close>

theorem login_without_secret:
  assumes "db_up st" "get_field b ''email'' = Some (JStr e)" "find (\<lambda>u. email u = e) (users st) = Some u"
    and "get_field b ''password'' = Some (JStr p)" "password u = BCrypt c s (bcrypt_key p)"
    and "jwt_secret st = None"
  shows "login st b = server_error ''secretOrPrivateKey must have a value''"
  using assms by (simp add: login_def Let_def)

theorem login_without_secret_witness:
  "login (ada_server\<lparr>jwt_secret := None\<rparr>) [(''email'', JStr ''ada@x.com''), (''password'', JStr ''secret123'')] =
   server_error ''secretOrPrivateKey must have a value''"
  by (rule login_without_secret [where e = "''ada@x.com''" and u = ada and p = "''secret123''"
                                   and c = bcrypt_rounds and s = 0])
     (simp_all add: get_field_def ada_server_def fresh_server_def ada_def)

section \<open>Properties of GET /me\<close>

text \<open>
  C18. A request that passes the gate for a stored user's \<open>_id\<close> gets that
  user's public projection: \<open>_id\<close>, name and email, and no password field.
\<close>

theorem me_public:
  assumes "verifyToken (jwt_secret st) (clock st) h = Inr i"
    and "db_up st" "find (\<lambda>v. user_id v = i) (users st) = Some u"
  shows "protected st h (me st) =
    (st, Some (respond 200 (Json (JObj [(''_id'', JStr (show_nat i)), (''name'', JStr (name u)),
                                        (''email'', JStr (email u))]))))"
proof -
  have "user_id u = i" using assms(3) find_Some_sat by fastforce
  then show ?thesis using assms by (simp add: protected_def me_def user_findById_public_def user_public_def)
qed

theorem me_public_witness:
  "protected ada_server (Some (''Bearer'', Compact
      \<lparr>payload = \<lparr>claim_id = 0, iat = 0, exp = 1700000000\<rparr>,
       sig = HS256 ''s3cret'' \<lparr>claim_id = 0, iat = 0, exp = 1700000000\<rparr>\<rparr>)) (me ada_server) =
   (ada_server, Some (respond 200 (Json (JObj [(''_id'', JStr ''0''), (''name'', JStr ''Ada''),
                                              (''email'', JStr ''ada@x.com'')]))))"
  by (rule trans [OF me_public [where u = ada and i = 0]])
     (simp_all add: ada_server_def fresh_server_def ada_def verifyToken_def digit_char_def)

text \<open>
  When the database connection is lost, \<open>GET /me\<close> with a valid token
  sends no response at all: the handler has no \<open>try\<close>, and the rejected
  query is an unhandled promise rejection.
\<close>

theorem me_db_down_no_response:
  assumes "verifyToken (jwt_secret st) (clock st) h = Inr i" and "\<not> db_up st"
  shows "protected st h (me st) = (st, None)"
  using assms by (simp add: protected_def me_def user_findById_public_def)

theorem me_db_down_no_response_witness:
  "protected (ada_server\<lparr>db_up := False\<rparr>) (Some (''Bearer'', Compact
      \<lparr>payload = \<lparr>claim_id = 0, iat = 0, exp = 1700000000\<rparr>,
       sig = HS256 ''s3cret'' \<lparr>claim_id = 0, iat = 0, exp = 1700000000\<rparr>\<rparr>)) (me (ada_server\<lparr>db_up := False\<rparr>)) =
   (ada_server\<lparr>db_up := False\<rparr>, None)"
  by (rule me_db_down_no_response [where i = 0]) (simp_all add: ada_server_def fresh_server_def verifyToken_def)

end
