(* ===== verification/Schema.thy ===== *)
theory Schema
  imports Store
begin

text \<open>
  Mongoose documents for the resource collections: a schema as a list of
  path specifications, \<open>new Model(req.body)\<close> (casting, defaults, the strict
  mode that drops unknown keys), validation on \<open>save()\<close> (\<open>required\<close>,
  \<open>enum\<close>), the unique indexes, and the JSON a saved document serialises to
  (\<open>_id\<close>, the set paths, \<open>__v\<close>). \<open>projectSchema\<close> is
  \<open>src/models/projectSchema.js\<close>; the team, tag and task schemas are not in
  the repository, so the application theory takes them as configuration.

  A \<open>Date\<close> path casts a number (milliseconds), a boolean (0 or 1) or a
  string; a non-numeric string goes through \<open>Date.parse\<close>, which the model
  takes as a parameter (\<open>date_parse\<close>). A \<open>Date\<close> serialises as
  \<open>toISOString()\<close> does (\<open>iso_date\<close>, the civil calendar of the proleptic
  Gregorian year).
\<close>

section \<open>Schemas\<close>

datatype stype = SString | SDate | SRefs   \<comment> \<open>\<open>String\<close>, \<open>Date\<close>, \<open>[ObjectId]\<close>\<close>

datatype dflt = NoDefault | DefaultStr string | DefaultNow

record path_spec =
  pname :: string
  ptype :: stype
  prequired :: bool
  punique :: bool
  penum :: "string list option"
  pdefault :: dflt

type_synonym schema = "path_spec list"

text \<open>\<open>src/models/projectSchema.js\<close>, lines 3-12.\<close>

definition projectSchema :: schema where
  "projectSchema =
     [\<lparr>pname = ''name'', ptype = SString, prequired = True, punique = True, penum = None,
       pdefault = NoDefault\<rparr>,
      \<lparr>pname = ''description'', ptype = SString, prequired = False, punique = False, penum = None,
       pdefault = NoDefault\<rparr>,
      \<lparr>pname = ''status'', ptype = SString, prequired = False, punique = False,
       penum = Some [''Planned'', ''In Progress'', ''Completed''], pdefault = DefaultStr ''Planned''\<rparr>,
      \<lparr>pname = ''createdAt'', ptype = SDate, prequired = False, punique = False, penum = None,
       pdefault = DefaultNow\<rparr>]"

section \<open>Stored values and documents\<close>

datatype sval = VStr string | VDate int | VRefs "oid list"

type_synonym doc = "(string \<times> sval) list"

section \<open>Casting a body value\<close>

text \<open>ObjectIds are printed in decimal in the model; parsing is its inverse.\<close>

definition parse_oid :: "string \<Rightarrow> oid option" where
  "parse_oid s =
     (if s \<noteq> [] \<and> list_all (\<lambda>c. c \<in> set ''0123456789'') s
      then Some (foldl (\<lambda>n c. 10 * n + (of_char c - 48)) 0 s) else None)"

definition cast_error :: "string \<Rightarrow> string \<Rightarrow> string" where
  "cast_error ty path = ''Cast to '' @ ty @ '' failed at path \"'' @ path @ ''\"''"

text \<open>The range of a valid JavaScript time value: 8.64e15 ms either side of the epoch.\<close>

definition max_time :: int where
  "max_time = 8640000000000000"

text \<open>
  The result \<open>None\<close> is \<open>null\<close>: the path is set to nothing (no default
  applies to an explicit \<open>null\<close>).
\<close>

fun cast_path :: "(string \<Rightarrow> int option) \<Rightarrow> string \<Rightarrow> stype \<Rightarrow> json \<Rightarrow> string + sval option" where
  "cast_path dp path SString v =
     (case v of JNull \<Rightarrow> Inr None
      | JStr s \<Rightarrow> Inr (Some (VStr s))
      | JNum n \<Rightarrow> Inr (Some (VStr (show_int n)))
      | JBool b \<Rightarrow> Inr (Some (VStr (if b then ''true'' else ''false'')))
      | _ \<Rightarrow> Inl (cast_error ''string'' path))"
| "cast_path dp path SDate v =
     (case v of JNull \<Rightarrow> Inr None
      | JNum n \<Rightarrow> if \<bar>n\<bar> \<le> max_time then Inr (Some (VDate n)) else Inl (cast_error ''date'' path)
      | JBool b \<Rightarrow> Inr (Some (VDate (if b then 1 else 0)))
      | JStr s \<Rightarrow> if s = [] then Inr None
                 else (case dp s of Some n \<Rightarrow> if \<bar>n\<bar> \<le> max_time then Inr (Some (VDate n))
                                                    else Inl (cast_error ''date'' path)
                                  | None \<Rightarrow> Inl (cast_error ''date'' path))
      | _ \<Rightarrow> Inl (cast_error ''date'' path))"
| "cast_path dp path SRefs v =
     (case v of JNull \<Rightarrow> Inr None
      | JArr vs \<Rightarrow>
          ebind (emap_list (\<lambda>x. case x of JStr s \<Rightarrow>
                                    (case parse_oid s of Some i \<Rightarrow> Inr i | None \<Rightarrow> Inl (cast_error ''[ObjectId]'' path))
                                  | _ \<Rightarrow> Inl (cast_error ''[ObjectId]'' path)) vs)
            (\<lambda>is. Inr (Some (VRefs is)))
      | JStr s \<Rightarrow> (case parse_oid s of Some i \<Rightarrow> Inr (Some (VRefs [i])) | None \<Rightarrow> Inl (cast_error ''[ObjectId]'' path))
      | _ \<Rightarrow> Inl (cast_error ''[ObjectId]'' path))"

text \<open>
  One path of \<open>new Model(body)\<close>: \<open>undefined\<close> takes the default (an array
  path defaults to the empty array); a cast failure is an error for the path.
\<close>

definition init_path :: "(string \<Rightarrow> int option) \<Rightarrow> ms \<Rightarrow> (string \<times> json) list \<Rightarrow> path_spec
                          \<Rightarrow> string + sval option" where
  "init_path dp now b p =
     (case get_field b (pname p) of
        None \<Rightarrow> Inr (case pdefault p of
                       DefaultStr s \<Rightarrow> Some (VStr s)
                     | DefaultNow \<Rightarrow> Some (VDate (int now))
                     | NoDefault \<Rightarrow> if ptype p = SRefs then Some (VRefs []) else None)
      | Some v \<Rightarrow> cast_path dp (pname p) (ptype p) v)"

text \<open>The validators of one path on its initialised value.\<close>

fun check_path :: "path_spec \<Rightarrow> sval option \<Rightarrow> string option" where
  "check_path p None =
     (if prequired p then Some (''Path `'' @ pname p @ ''` is required.'') else None)"
| "check_path p (Some (VStr s)) =
     (if prequired p \<and> s = [] then Some (''Path `'' @ pname p @ ''` is required.'')
      else case penum p of
        Some vs \<Rightarrow> if s \<in> set vs then None
                   else Some (''`'' @ s @ ''` is not a valid enum value for path `'' @ pname p @ ''`.'')
      | None \<Rightarrow> None)"
| "check_path p (Some _) = None"

section \<open>Constructing and validating a document\<close>

text \<open>
  \<open>new Model(body)\<close> and its validation: every path of the schema in order;
  the errors of all failing paths, each prefixed by its path, and the
  document of the paths that hold a value. Keys of the body that are no path
  of the schema are dropped (strict mode).
\<close>

fun build_doc :: "(string \<Rightarrow> int option) \<Rightarrow> ms \<Rightarrow> (string \<times> json) list \<Rightarrow> schema
                   \<Rightarrow> string list \<times> doc" where
  "build_doc dp now b [] = ([], [])"
| "build_doc dp now b (p # ps) =
     (case build_doc dp now b ps of
        (es, d) \<Rightarrow>
          (case init_path dp now b p of
             Inl e \<Rightarrow> ((pname p @ '': '' @ e) # es, d)
           | Inr v \<Rightarrow>
               ((case check_path p v of Some e \<Rightarrow> [pname p @ '': '' @ e] | None \<Rightarrow> []) @ es,
                (case v of None \<Rightarrow> d | Some x \<Rightarrow> (pname p, x) # d))))"

text \<open>\<open>Array.prototype.join\<close>.\<close>

fun join_with :: "string \<Rightarrow> string list \<Rightarrow> string" where
  "join_with sep [] = []"
| "join_with sep [x] = x"
| "join_with sep (x # xs) = x @ sep @ join_with sep xs"

definition validation_error :: "string \<Rightarrow> string list \<Rightarrow> string" where
  "validation_error model es = model @ '' validation failed: '' @ join_with '', '' es"

definition model_new :: "string \<Rightarrow> schema \<Rightarrow> (string \<Rightarrow> int option) \<Rightarrow> ms \<Rightarrow> (string \<times> json) list
                          \<Rightarrow> string + doc" where
  "model_new model sch dp now b =
     (case build_doc dp now b sch of (es, d) \<Rightarrow> if es = [] then Inr d else Inl (validation_error model es))"

section \<open>Collections and the unique indexes\<close>

type_synonym collection = "(oid \<times> doc) list"

text \<open>
  The first unique path whose value (or absence, which the index stores as
  \<open>null\<close>) another document of the collection already has.
\<close>

definition dup_path :: "schema \<Rightarrow> doc \<Rightarrow> collection \<Rightarrow> path_spec option" where
  "dup_path sch d c =
     find (\<lambda>p. punique p \<and> list_ex (\<lambda>(_, d'). map_of d' (pname p) = map_of d (pname p)) c) sch"

definition doc_save :: "string \<Rightarrow> schema \<Rightarrow> collection \<Rightarrow> oid \<Rightarrow> doc \<Rightarrow> string + collection" where
  "doc_save coll sch c i d =
     (case dup_path sch d c of
        Some p \<Rightarrow> Inl (''E11000 duplicate key error collection: '' @ coll @ '' index: '' @ pname p @ ''_1 dup key'')
      | None \<Rightarrow> Inr (c @ [(i, d)]))"

section \<open>Serialisation\<close>

text \<open>\<open>Date.prototype.toISOString\<close>: days from the civil calendar, then the time of day.\<close>

definition civil_from_days :: "int \<Rightarrow> int \<times> int \<times> int" where
  "civil_from_days z0 =
     (let z = z0 + 719468; era = z div 146097; doe = z - era * 146097;
          yoe = (doe - doe div 1460 + doe div 36524 - doe div 146096) div 365;
          y = yoe + era * 400; doy = doe - (365 * yoe + yoe div 4 - yoe div 100);
          mp = (5 * doy + 2) div 153; d = doy - (153 * mp + 2) div 5 + 1;
          m = (if mp < 10 then mp + 3 else mp - 9)
      in (if m \<le> 2 then y + 1 else y, m, d))"

definition pad :: "nat \<Rightarrow> nat \<Rightarrow> string" where
  "pad w n = (let s = show_nat n in replicate (w - length s) CHR ''0'' @ s)"

definition iso_year :: "int \<Rightarrow> string" where
  "iso_year y =
     (if 0 \<le> y \<and> y \<le> 9999 then pad 4 (nat y)
      else (if y < 0 then CHR ''-'' else CHR ''+'') # pad 6 (nat \<bar>y\<bar>))"

definition iso_date :: "int \<Rightarrow> string" where
  "iso_date t =
     (let (y, m, d) = civil_from_days (t div 86400000); r = nat (t mod 86400000)
      in iso_year y @ ''-'' @ pad 2 (nat m) @ ''-'' @ pad 2 (nat d) @ ''T'' @
         pad 2 (r div 3600000) @ '':'' @ pad 2 (r div 60000 mod 60) @ '':'' @
         pad 2 (r div 1000 mod 60) @ ''.'' @ pad 3 (r mod 1000) @ ''Z'')"

fun sval_json :: "sval \<Rightarrow> json" where
  "sval_json (VStr s) = JStr s"
| "sval_json (VDate t) = JStr (iso_date t)"
| "sval_json (VRefs is) = JArr (map (\<lambda>i. JStr (show_nat i)) is)"

text \<open>\<open>res.json(doc)\<close> after \<open>save()\<close>: \<open>_id\<close>, the paths, the version key.\<close>

definition doc_json :: "oid \<Rightarrow> doc \<Rightarrow> json" where
  "doc_json i d =
     JObj ((''_id'', JStr (show_nat i)) # map (\<lambda>(k, v). (k, sval_json v)) d @ [(''__v'', JNum 0)])"

section \<open>Evaluation\<close>

text \<open>
  The equations that evaluate a date's serialisation on a concrete time value
  (to be used with \<open>cong: let_weak_cong\<close>, so that each \<open>let\<close> is evaluated
  before it is substituted).
\<close>

lemmas iso_date_eval = iso_date_def civil_from_days_def pad_def iso_year_def digit_char_def
  Let_def replicate_numeral

section \<open>Properties of casting\<close>

lemma parse_oid_show_nat: "parse_oid (show_nat i) = Some i"
  using show_nat_digits [of i] show_nat_nonempty [of i] by (simp add: parse_oid_def)




end
