(* ===== verification/App.thy ===== *)
theory App
  imports Auth Schema
begin

text \<open>
  The whole request surface of \<open>src/index.js\<close>: the resource routes
  \<open>/users\<close>, \<open>/projects\<close>, \<open>/teams\<close>, \<open>/tags\<close>, \<open>/tasks\<close> (lines 90-150),
  the root route (line 33), and Express's routing of a request to its
  handler, over an application state that extends the server state of
  \<open>Auth\<close> with the four resource collections. The team, tag and task schemas
  (\<open>./models/teamSchema\<close>, \<open>tagSchema\<close>, \<open>taskSchema\<close>) are not in the
  repository: they are configuration of the state, as is \<open>Date.parse\<close>.

  The list routes have no \<open>try\<close>: a failing query sends no response. The
  create routes answer 400 with the error message on any failure.
  \<open>POST /tasks\<close> assigns to the \<open>const task\<close> after saving (line 145), which
  throws a \<open>TypeError\<close>: the task is stored and the answer is 400.
\<close>

section \<open>Application state\<close>

record app = server +
  projects :: collection
  teams :: collection
  tags :: collection
  tasks :: collection
  teamSchema :: schema
  tagSchema :: schema
  taskSchema :: schema
  date_parse :: "string \<Rightarrow> int option"

section \<open>List routes\<close>

text \<open>\<open>res.json(await User.find().select("-password"))\<close>, lines 90-92.\<close>

definition get_users :: "'a app_scheme \<Rightarrow> 'a app_scheme \<times> reply response option" where
  "get_users st =
     (st, case user_find_public st of Inl _ \<Rightarrow> None | Inr j \<Rightarrow> Some (respond 200 (Json j)))"

text \<open>\<open>res.json(await Model.find())\<close>: projects, teams and tags (lines 95-97, 109-111, 123-125).\<close>

definition get_collection ::
  "('a app_scheme \<Rightarrow> collection) \<Rightarrow> 'a app_scheme \<Rightarrow> 'a app_scheme \<times> reply response option" where
  "get_collection sel st =
     (st, if \<not> db_up st then None
          else Some (respond 200 (Json (JArr (map (\<lambda>(i, d). doc_json i d) (sel st))))))"

text \<open>
  \<open>.populate("owners", "name email")\<close>: each owner id becomes the owner's
  \<open>{_id, name, email}\<close>; ids of no user are left out.
\<close>

definition populate_owners :: "user list \<Rightarrow> sval \<Rightarrow> json" where
  "populate_owners us v =
     (case v of
        VRefs is \<Rightarrow> JArr (map user_public (List.map_filter (\<lambda>i. find (\<lambda>u. user_id u = i) us) is))
      | _ \<Rightarrow> sval_json v)"

definition task_json :: "user list \<Rightarrow> oid \<Rightarrow> doc \<Rightarrow> json" where
  "task_json us i d =
     JObj ((''_id'', JStr (show_nat i)) #
           map (\<lambda>(k, v). (k, if k = ''owners'' then populate_owners us v else sval_json v)) d @
           [(''__v'', JNum 0)])"

text \<open>\<open>res.json(await Task.find().populate("owners", "name email"))\<close>, lines 137-139.\<close>

definition get_tasks :: "'a app_scheme \<Rightarrow> 'a app_scheme \<times> reply response option" where
  "get_tasks st =
     (st, if \<not> db_up st then None
          else Some (respond 200 (Json (JArr (map (\<lambda>(i, d). task_json (users st) i d) (tasks st))))))"

section \<open>Create routes\<close>

text \<open>
  \<open>const p = new Model(req.body); await p.save(); res.json(p)\<close> in a
  \<open>try\<close> whose \<open>catch\<close> answers 400 (lines 98-106, 112-120, 126-134): the
  \<open>_id\<close> is drawn at construction; \<open>save()\<close> validates, then writes, where
  the unique indexes may refuse the document.
\<close>

definition post_resource ::
  "string \<Rightarrow> string \<Rightarrow> schema \<Rightarrow> ('a app_scheme \<Rightarrow> collection) \<Rightarrow> (collection \<Rightarrow> 'a app_scheme \<Rightarrow> 'a app_scheme)
     \<Rightarrow> 'a app_scheme \<Rightarrow> body \<Rightarrow> 'a app_scheme \<times> reply response option" where
  "post_resource model coll sch sel upd st b =
     (let i = next_oid st; st1 = st\<lparr>next_oid := Suc i\<rparr> in
      case model_new model sch (date_parse st) (clock st) b of
        Inl e \<Rightarrow> (st1, Some (respond 400 (Json (error_body e))))
      | Inr d \<Rightarrow>
          if \<not> db_up st then (st1, Some (respond 400 (Json (error_body (db_timeout coll ''insertOne'')))))
          else (case doc_save coll sch (sel st1) i d of
                  Inl e \<Rightarrow> (st1, Some (respond 400 (Json (error_body e))))
                | Inr c \<Rightarrow> (upd c st1, Some (respond 200 (Json (doc_json i d))))))"

text \<open>
  \<open>POST /tasks\<close>, lines 140-150: after a successful \<open>save()\<close> the handler
  awaits \<open>task.populate(...)\<close> and assigns the result to the \<open>const task\<close>;
  the assignment throws \<open>TypeError: Assignment to constant variable.\<close>, which
  the \<open>catch\<close> answers with 400. The task stays stored.
\<close>

definition post_tasks :: "'a app_scheme \<Rightarrow> body \<Rightarrow> 'a app_scheme \<times> reply response option" where
  "post_tasks st b =
     (let i = next_oid st; st1 = st\<lparr>next_oid := Suc i\<rparr> in
      case model_new ''Task'' (taskSchema st) (date_parse st) (clock st) b of
        Inl e \<Rightarrow> (st1, Some (respond 400 (Json (error_body e))))
      | Inr d \<Rightarrow>
          if \<not> db_up st then (st1, Some (respond 400 (Json (error_body (db_timeout ''tasks'' ''insertOne'')))))
          else (case doc_save ''tasks'' (taskSchema st) (tasks st1) i d of
                  Inl e \<Rightarrow> (st1, Some (respond 400 (Json (error_body e))))
                | Inr c \<Rightarrow> (st1\<lparr>tasks := c\<rparr>,
                            Some (respond 400 (Json (error_body ''Assignment to constant variable.''))))))"

section \<open>Requests and routing\<close>

datatype http_method = GET | POST | PUT | DELETE | HEAD | OPTIONS

fun method_name :: "http_method \<Rightarrow> string" where
  "method_name GET = ''GET''"
| "method_name POST = ''POST''"
| "method_name PUT = ''PUT''"
| "method_name DELETE = ''DELETE''"
| "method_name HEAD = ''HEAD''"
| "method_name OPTIONS = ''OPTIONS''"

text \<open>A request: method, URL path, the \<open>Authorization\<close> header and the parsed JSON body.\<close>

record request =
  req_method :: http_method
  path :: string
  authorization :: auth_header
  req_body :: json

text \<open>\<open>req.body\<close> as an object: the members of a JSON object, none otherwise.\<close>

fun body_members :: "json \<Rightarrow> body" where
  "body_members (JObj kvs) = kvs"
| "body_members _ = []"

text \<open>
  Express matches paths case-insensitively and with an optional trailing
  slash (\<open>sensitive\<close> and \<open>strict\<close> routing are off); the model's paths
  are byte strings, so case folding is that of ASCII letters.
\<close>

definition lower_char :: "char \<Rightarrow> char" where
  "lower_char c =
     (case map_of (zip ''ABCDEFGHIJKLMNOPQRSTUVWXYZ'' ''abcdefghijklmnopqrstuvwxyz'') c of
        Some d \<Rightarrow> d | None \<Rightarrow> c)"

definition route_path :: "string \<Rightarrow> string" where
  "route_path p =
     map lower_char (if 1 < length p \<and> last p = CHR ''/'' then butlast p else p)"

text \<open>The text of \<open>GET /\<close>: a rocket (U+1F680, four UTF-8 bytes) and the banner.\<close>

definition root_text :: string where
  "root_text = [CHR 0xF0, CHR 0x9F, CHR 0x9A, CHR 0x80] @ '' Workasana API Running''"

type_synonym 'a handler = "'a app_scheme \<Rightarrow> auth_header \<Rightarrow> body \<Rightarrow> 'a app_scheme \<times> reply response option"

text \<open>The route table of \<open>src/index.js\<close>, in the order the routes are registered.\<close>

definition routes :: "((http_method \<times> string) \<times> 'a handler) list" where
  "routes =
     [((GET, ''/''), \<lambda>st h b. (st, Some (respond 200 (Text root_text)))),
      ((POST, ''/signup''), \<lambda>st h b. case signup st b of (st', r) \<Rightarrow> (st', Some r)),
      ((POST, ''/login''), \<lambda>st h b. (st, Some (login st b))),
      ((GET, ''/me''), \<lambda>st h b. protected st h (me st)),
      ((GET, ''/users''), \<lambda>st h b. protected st h (\<lambda>_. get_users st)),
      ((GET, ''/projects''), \<lambda>st h b. protected st h (\<lambda>_. get_collection projects st)),
      ((POST, ''/projects''), \<lambda>st h b. protected st h (\<lambda>_.
          post_resource ''Project'' ''projects'' projectSchema projects (\<lambda>c s. s\<lparr>projects := c\<rparr>) st b)),
      ((GET, ''/teams''), \<lambda>st h b. protected st h (\<lambda>_. get_collection teams st)),
      ((POST, ''/teams''), \<lambda>st h b. protected st h (\<lambda>_.
          post_resource ''Team'' ''teams'' (teamSchema st) teams (\<lambda>c s. s\<lparr>teams := c\<rparr>) st b)),
      ((GET, ''/tags''), \<lambda>st h b. protected st h (\<lambda>_. get_collection tags st)),
      ((POST, ''/tags''), \<lambda>st h b. protected st h (\<lambda>_.
          post_resource ''Tag'' ''tags'' (tagSchema st) tags (\<lambda>c s. s\<lparr>tags := c\<rparr>) st b)),
      ((GET, ''/tasks''), \<lambda>st h b. protected st h (\<lambda>_. get_tasks st)),
      ((POST, ''/tasks''), \<lambda>st h b. protected st h (\<lambda>_. post_tasks st b))]"

text \<open>
  Handling one request: the CORS middleware (lines 17-21) answers every
  preflight \<open>OPTIONS\<close> with 204; \<open>HEAD\<close> runs the \<open>GET\<close> route; a request
  no route matches gets Express's 404 page.
\<close>

definition dispatch :: "'a app_scheme \<Rightarrow> request \<Rightarrow> 'a app_scheme \<times> reply response option" where
  "dispatch st r =
     (if req_method r = OPTIONS then (st, Some (respond 204 (Text [])))
      else case map_of routes (if req_method r = HEAD then GET else req_method r, route_path (path r)) of
        None \<Rightarrow> (st, Some (respond 404 (Text (''Cannot '' @ method_name (req_method r) @ '' '' @ path r))))
      | Some handler \<Rightarrow> handler st (authorization r) (body_members (req_body r)))"

subsection \<open>The CORS layer\<close>

text \<open>
  \<open>app.use(cors({origin: "*", methods: [...], allowedHeaders: [...]}))\<close>,
  lines 17-21: every response carries \<open>Access-Control-Allow-Origin: *\<close>; a
  preflight (\<open>OPTIONS\<close>) is ended by the middleware itself with 204, the
  configured methods and headers joined by commas, and an empty body, before
  any route runs. The headers are those the \<open>cors\<close> package sets for a
  fixed origin and fixed allowed headers.
\<close>

type_synonym headers = "(string \<times> string) list"

definition cors_methods :: "http_method list" where
  "cors_methods = [GET, POST, PUT, DELETE]"

definition cors_allowed_headers :: "string list" where
  "cors_allowed_headers = [''Content-Type'', ''Authorization'']"

definition cors_headers :: "request \<Rightarrow> headers" where
  "cors_headers r =
     (if req_method r = OPTIONS
      then [(''Access-Control-Allow-Origin'', ''*''),
            (''Access-Control-Allow-Methods'', join_with '','' (map method_name cors_methods)),
            (''Access-Control-Allow-Headers'', join_with '','' cors_allowed_headers),
            (''Content-Length'', ''0'')]
      else [(''Access-Control-Allow-Origin'', ''*'')])"

text \<open>The application as a client sees it: the dispatcher behind the CORS layer.\<close>

definition handle ::
  "'a app_scheme \<Rightarrow> request \<Rightarrow> 'a app_scheme \<times> (headers \<times> reply response) option" where
  "handle st r = (case dispatch st r of (st', a) \<Rightarrow> (st', map_option (\<lambda>x. (cors_headers r, x)) a))"

section \<open>The application invariant and reachable states\<close>

text \<open>Every ObjectId the database holds, users first.\<close>

definition all_ids :: "'a app_scheme \<Rightarrow> oid list" where
  "all_ids st =
     map user_id (users st) @ map fst (projects st) @ map fst (teams st) @ map fst (tags st) @
     map fst (tasks st)"

text \<open>The unique indexes of a schema hold on a collection.\<close>

definition coll_unique :: "schema \<Rightarrow> collection \<Rightarrow> bool" where
  "coll_unique sch c \<longleftrightarrow>
     (\<forall>p \<in> set sch. punique p \<longrightarrow> distinct (map (\<lambda>(_, d). map_of d (pname p)) c))"

text \<open>
  The server invariant of \<open>Auth\<close>; no two documents of the database share
  an \<open>_id\<close>, and every \<open>_id\<close> is below the counter; every collection
  satisfies its unique indexes.
\<close>

definition app_inv :: "'a app_scheme \<Rightarrow> bool" where
  "app_inv st \<longleftrightarrow> server_inv st \<and> distinct (all_ids st) \<and> (\<forall>i \<in> set (all_ids st). i < next_oid st) \<and>
     coll_unique projectSchema (projects st) \<and> coll_unique (teamSchema st) (teams st) \<and>
     coll_unique (tagSchema st) (tags st) \<and> coll_unique (taskSchema st) (tasks st)"

text \<open>
  The states a started server can reach from \<open>s0\<close>: by handling a request,
  by the clock moving forward, and by the database connection dropping or
  coming back.
\<close>

inductive reach :: "'a app_scheme \<Rightarrow> 'a app_scheme \<Rightarrow> bool" for s0 :: "'a app_scheme" where
  start: "reach s0 s0"
| request: "reach s0 s \<Longrightarrow> reach s0 (fst (dispatch s r))"
| tick: "reach s0 s \<Longrightarrow> clock s \<le> t \<Longrightarrow> reach s0 (s\<lparr>clock := t\<rparr>)"
| connection: "reach s0 s \<Longrightarrow> reach s0 (s\<lparr>db_up := up\<rparr>)"

section \<open>Example application state\<close>

text \<open>An empty application with the example task schema, used by the witnesses.\<close>

definition taskSchema_example :: schema where
  "taskSchema_example =
     [\<lparr>pname = ''title'', ptype = SString, prequired = True, punique = False, penum = None, pdefault = NoDefault\<rparr>,
      \<lparr>pname = ''owners'', ptype = SRefs, prequired = False, punique = False, penum = None, pdefault = NoDefault\<rparr>]"

definition empty_app :: app where
  "empty_app = \<lparr>users = [], db_up = True, next_oid = 0, salt_rng = 0, jwt_secret = Some ''s3cret'',
                clock = 1700000000000, projects = [], teams = [], tags = [], tasks = [],
                teamSchema = [], tagSchema = [], taskSchema = taskSchema_example, date_parse = (\<lambda>_. None)\<rparr>"

definition bearer0 :: auth_header where
  "bearer0 = Some (''Bearer'', Compact \<lparr>payload = \<lparr>claim_id = 0, iat = 1700000000, exp = 1700604800\<rparr>,
                       sig = HS256 ''s3cret'' \<lparr>claim_id = 0, iat = 1700000000, exp = 1700604800\<rparr>\<rparr>)"

section \<open>Lemmas\<close>

lemma server_inv_next_oid:
  "server_inv st \<Longrightarrow> server_inv (st\<lparr>next_oid := Suc (next_oid st)\<rparr>)"
  by (simp add: server_inv_def store_inv_next_oid)

lemma all_ids_frame [simp]:
  "all_ids (st\<lparr>next_oid := n\<rparr>) = all_ids st"
  "all_ids (st\<lparr>salt_rng := r\<rparr>) = all_ids st"
  "all_ids (st\<lparr>clock := t\<rparr>) = all_ids st"
  "all_ids (st\<lparr>db_up := up\<rparr>) = all_ids st"
  by (simp_all add: all_ids_def)

lemma doc_save_Inr:
  "doc_save coll sch c i d = Inr c' \<Longrightarrow> c' = c @ [(i, d)] \<and> dup_path sch d c = None"
  by (auto simp: doc_save_def split: option.splits)

lemma coll_unique_append:
  assumes "coll_unique sch c" "dup_path sch d c = None"
  shows "coll_unique sch (c @ [(i, d)])"
proof -
  have "\<forall>p \<in> set sch. punique p \<longrightarrow> \<not> list_ex (\<lambda>(_, d'). map_of d' (pname p) = map_of d (pname p)) c"
    using assms(2) by (simp add: dup_path_def find_None_iff')
  then show ?thesis using assms(1)
    by (fastforce simp: coll_unique_def list_ex_iff)
qed

lemma app_inv_bump_salt:
  assumes "app_inv st"
  shows "app_inv (st\<lparr>salt_rng := Suc (salt_rng st), next_oid := Suc (next_oid st)\<rparr>)"
proof -
  have "server_inv (st\<lparr>salt_rng := Suc (salt_rng st), next_oid := Suc (next_oid st)\<rparr>)"
    using assms by (simp add: app_inv_def server_inv_bump)
  then show ?thesis using assms by (auto simp: app_inv_def less_SucI)
qed

lemma app_inv_bump:
  assumes "app_inv st"
  shows "app_inv (st\<lparr>next_oid := Suc (next_oid st)\<rparr>)"
proof -
  have "server_inv (st\<lparr>next_oid := Suc (next_oid st)\<rparr>)"
    using assms by (simp add: app_inv_def server_inv_next_oid)
  then show ?thesis using assms by (auto simp: app_inv_def less_SucI)
qed

lemma fresh_ids:
  assumes "distinct xs" "\<forall>i \<in> set xs. i < n"
    and "set ys = insert n (set xs)" "length ys = Suc (length xs)"
  shows "distinct ys \<and> (\<forall>i \<in> set ys. i < Suc n)"
proof
  have "n \<notin> set xs" using assms(2) by auto
  then have "card (set ys) = length ys"
    using assms(1,3,4) by (simp add: distinct_card)
  then show "distinct ys" by (simp add: card_distinct)
  show "\<forall>i \<in> set ys. i < Suc n" using assms(2,3) by auto
qed

lemma app_inv_fresh:
  assumes "app_inv st" "server_inv st'" "next_oid st' = Suc (next_oid st)"
    and "set (all_ids st') = insert (next_oid st) (set (all_ids st))"
    and "length (all_ids st') = Suc (length (all_ids st))"
    and "coll_unique projectSchema (projects st')" "coll_unique (teamSchema st') (teams st')"
    and "coll_unique (tagSchema st') (tags st')" "coll_unique (taskSchema st') (tasks st')"
  shows "app_inv st'"
  using assms fresh_ids [of "all_ids st" "next_oid st" "all_ids st'"] by (simp add: app_inv_def)

lemma app_inv_add_user:
  assumes "app_inv st" "e \<notin> email ` set (users st)"
  shows "app_inv (st\<lparr>salt_rng := Suc (salt_rng st), next_oid := Suc (next_oid st),
           users := users st @ [\<lparr>user_id = next_oid st, name = n, email = e,
                                  password = BCrypt c (salt_rng st) k\<rparr>]\<rparr>)"
  by (rule app_inv_fresh [OF assms(1)])
     (use assms in \<open>auto simp: app_inv_def all_ids_def intro: server_inv_add\<close>)

lemma signup_app_inv: "app_inv st \<Longrightarrow> app_inv (fst (signup st b))"
  by (auto simp: signup_def Let_def new_user_def user_save_def ebind_eq_Inr_iff bcrypt_hash_Inr_iff
           split: sum.splits option.splits prod.splits if_splits
           intro: app_inv_bump_salt app_inv_add_user)

lemma server_inv_app_frame [simp]:
  "server_inv (st\<lparr>projects := c\<rparr>) = server_inv st"
  "server_inv (st\<lparr>teams := c\<rparr>) = server_inv st"
  "server_inv (st\<lparr>tags := c\<rparr>) = server_inv st"
  "server_inv (st\<lparr>tasks := c\<rparr>) = server_inv st"
  by (simp_all add: server_inv_def store_inv_def)

lemma post_resource_state:
  "fst (post_resource model coll sch sel upd st b) = st\<lparr>next_oid := Suc (next_oid st)\<rparr> \<or>
   (\<exists>d. dup_path sch d (sel (st\<lparr>next_oid := Suc (next_oid st)\<rparr>)) = None \<and>
        fst (post_resource model coll sch sel upd st b) =
          upd (sel (st\<lparr>next_oid := Suc (next_oid st)\<rparr>) @ [(next_oid st, d)]) (st\<lparr>next_oid := Suc (next_oid st)\<rparr>))"
  by (auto simp: post_resource_def Let_def split: sum.splits if_splits dest!: doc_save_Inr)

lemmas app_inv_unfold = app_inv_def all_ids_def

lemma post_resource_app_inv:
  assumes "app_inv st"
    and "\<And>d. dup_path sch d (sel st) = None \<Longrightarrow>
            app_inv (upd (sel st @ [(next_oid st, d)]) (st\<lparr>next_oid := Suc (next_oid st)\<rparr>))"
    and "sel (st\<lparr>next_oid := Suc (next_oid st)\<rparr>) = sel st"
  shows "app_inv (fst (post_resource model coll sch sel upd st b))"
  using post_resource_state [of model coll sch sel upd st b] assms app_inv_bump [OF assms(1)] by auto

lemma app_inv_add_project:
  "app_inv st \<Longrightarrow> dup_path projectSchema d (projects st) = None \<Longrightarrow>
   app_inv (st\<lparr>next_oid := Suc (next_oid st), projects := projects st @ [(next_oid st, d)]\<rparr>)"
  by (rule app_inv_fresh) (auto simp: app_inv_unfold server_inv_next_oid intro: coll_unique_append)

lemma app_inv_add_team:
  "app_inv st \<Longrightarrow> dup_path (teamSchema st) d (teams st) = None \<Longrightarrow>
   app_inv (st\<lparr>next_oid := Suc (next_oid st), teams := teams st @ [(next_oid st, d)]\<rparr>)"
  by (rule app_inv_fresh) (auto simp: app_inv_unfold server_inv_next_oid intro: coll_unique_append)

lemma app_inv_add_tag:
  "app_inv st \<Longrightarrow> dup_path (tagSchema st) d (tags st) = None \<Longrightarrow>
   app_inv (st\<lparr>next_oid := Suc (next_oid st), tags := tags st @ [(next_oid st, d)]\<rparr>)"
  by (rule app_inv_fresh) (auto simp: app_inv_unfold server_inv_next_oid intro: coll_unique_append)

lemma app_inv_add_task:
  "app_inv st \<Longrightarrow> dup_path (taskSchema st) d (tasks st) = None \<Longrightarrow>
   app_inv (st\<lparr>next_oid := Suc (next_oid st), tasks := tasks st @ [(next_oid st, d)]\<rparr>)"
  by (rule app_inv_fresh) (auto simp: app_inv_unfold server_inv_next_oid intro: coll_unique_append)

lemma post_projects_app_inv:
  "app_inv st \<Longrightarrow> app_inv (fst (post_resource ''Project'' ''projects'' projectSchema projects
                                      (\<lambda>c s. s\<lparr>projects := c\<rparr>) st b))"
  by (rule post_resource_app_inv) (simp_all add: app_inv_add_project)

lemma post_teams_app_inv:
  "app_inv st \<Longrightarrow> app_inv (fst (post_resource ''Team'' ''teams'' (teamSchema st) teams
                                      (\<lambda>c s. s\<lparr>teams := c\<rparr>) st b))"
  by (rule post_resource_app_inv) (simp_all add: app_inv_add_team)

lemma post_tags_app_inv:
  "app_inv st \<Longrightarrow> app_inv (fst (post_resource ''Tag'' ''tags'' (tagSchema st) tags
                                      (\<lambda>c s. s\<lparr>tags := c\<rparr>) st b))"
  by (rule post_resource_app_inv) (simp_all add: app_inv_add_tag)

lemma post_tasks_app_inv:
  assumes "app_inv st"
  shows "app_inv (fst (post_tasks st b))"
  using assms
  by (auto simp: post_tasks_def Let_def split: sum.splits if_splits
           dest!: doc_save_Inr intro: app_inv_bump app_inv_add_task)

lemma protected_app_inv:
  "app_inv st \<Longrightarrow> (\<And>u. app_inv (fst (handler u))) \<Longrightarrow> app_inv (fst (protected st h handler))"
  by (simp add: protected_def split: sum.splits)

lemma signup_pair_app_inv: "signup st b = (st', r) \<Longrightarrow> app_inv st \<Longrightarrow> app_inv st'"
  using signup_app_inv [of st b] by simp

lemma routes_app_inv:
  assumes "(k, handler) \<in> set routes" "app_inv st"
  shows "app_inv (fst (handler st h b))"
  using assms
  by (auto simp: routes_def me_def get_users_def get_collection_def get_tasks_def
           split: prod.splits
           intro!: protected_app_inv post_tasks_app_inv
                   post_projects_app_inv post_teams_app_inv post_tags_app_inv
           elim: signup_pair_app_inv)

lemma dispatch_app_inv: "app_inv st \<Longrightarrow> app_inv (fst (dispatch st r))"
  by (auto simp: dispatch_def split: option.splits dest: map_of_SomeD intro: routes_app_inv)

lemma app_inv_env [simp]:
  "app_inv (st\<lparr>clock := t\<rparr>) = app_inv st"
  "app_inv (st\<lparr>db_up := up\<rparr>) = app_inv st"
  by (simp_all add: app_inv_def server_inv_def store_inv_def)

lemma reach_app_inv: "reach s0 s \<Longrightarrow> app_inv s0 \<Longrightarrow> app_inv s"
  by (induction rule: reach.induct) (auto intro: dispatch_app_inv)

lemma app_inv_empty: "app_inv empty_app"
  by (simp add: app_inv_def server_inv_def store_inv_def all_ids_def coll_unique_def empty_app_def)

lemma protected_routes:
  assumes "(k, handler) \<in> set (routes :: ((http_method \<times> string) \<times> 'a handler) list)"
    and "snd k \<notin> {''/'', ''/signup'', ''/login''}"
  shows "\<exists>f. \<forall>st h b. handler st h b = protected st h (f st b)"
  using assms by (auto simp: routes_def)

section \<open>Properties of the routes\<close>



text \<open>
  C21. Every route but \<open>/\<close>, \<open>/signup\<close> and \<open>/login\<close> is guarded: a
  \<open>GET\<close> or \<open>POST\<close> request the gate rejects gets the 401 and leaves the
  state unchanged, whatever the handler.
\<close>

theorem gate_guards_routes:
  fixes st :: "'a app_scheme" and handler :: "'a handler"
  assumes "map_of routes (req_method r, route_path (path r)) = Some handler"
    and "route_path (path r) \<notin> {''/'', ''/signup'', ''/login''}"
    and "req_method r \<in> {GET, POST}"
    and "verifyToken (jwt_secret st) (clock st) (authorization r) = Inl rej"
  shows "dispatch st r = (st, Some unauthenticated)"
proof -
  obtain f where f: "\<forall>st h b. handler st h b = protected st h (f st b)"
    using protected_routes [OF map_of_SomeD [OF assms(1)]] assms(2) by auto
  have "dispatch st r = protected st (authorization r) (f st (body_members (req_body r)))"
    using assms(1,3) f by (auto simp: dispatch_def)
  then show ?thesis using assms(4) verifyToken_Inl [OF assms(4)] by (simp add: protected_def)
qed

theorem gate_guards_routes_witness:
  "dispatch empty_app \<lparr>req_method = GET, path = ''/Projects/'', authorization = None, req_body = JObj []\<rparr> =
   (empty_app, Some unauthenticated)"
  by (rule gate_guards_routes [where handler = "\<lambda>st h b. protected st h (\<lambda>_. get_collection projects st)"])
     (simp_all add: routes_def route_path_def lower_char_def empty_app_def verifyToken_def)

text \<open>
  C23. \<open>POST /tasks\<close> (index.js line 145 reassigns a \<open>const\<close>): when the task
  validates and saves, it is stored, yet the client gets 400 with the
  \<open>TypeError\<close> message.
\<close>

theorem post_tasks_stores_then_fails:
  assumes "model_new ''Task'' (taskSchema st) (date_parse st) (clock st) b = Inr d"
    and "db_up st" "dup_path (taskSchema st) d (tasks st) = None"
  shows "post_tasks st b =
    (st\<lparr>next_oid := Suc (next_oid st), tasks := tasks st @ [(next_oid st, d)]\<rparr>,
     Some (respond 400 (Json (error_body ''Assignment to constant variable.''))))"
  using assms by (simp add: post_tasks_def Let_def doc_save_def)

theorem post_tasks_stores_then_fails_witness:
  "post_tasks empty_app [(''title'', JStr ''Write spec'')] =
    (empty_app\<lparr>next_oid := 1, tasks := [(0, [(''title'', VStr ''Write spec''), (''owners'', VRefs [])])]\<rparr>,
     Some (respond 400 (Json (error_body ''Assignment to constant variable.''))))"
proof -
  have d: "model_new ''Task'' (taskSchema empty_app) (date_parse empty_app) (clock empty_app)
             [(''title'', JStr ''Write spec'')] = Inr [(''title'', VStr ''Write spec''), (''owners'', VRefs [])]"
    by (simp add: model_new_def empty_app_def taskSchema_example_def init_path_def get_field_def)
  have "dup_path (taskSchema empty_app) [(''title'', VStr ''Write spec''), (''owners'', VRefs [])] (tasks empty_app) = None"
    by (simp add: dup_path_def empty_app_def taskSchema_example_def)
  then show ?thesis
    using post_tasks_stores_then_fails [OF d] by (simp add: empty_app_def)
qed



text \<open>
  C25. \<open>POST /projects\<close> with a name already taken answers 400 with Mongo's
  E11000 message on the \<open>name_1\<close> index; no project is stored, only the
  ObjectId counter advances.
\<close>

theorem post_project_duplicate:
  assumes "model_new ''Project'' projectSchema (date_parse st) (clock st) b = Inr d" "db_up st"
    and "map_of d ''name'' \<in> (\<lambda>(_, d'). map_of d' ''name'') ` set (projects st)"
  shows "post_resource ''Project'' ''projects'' projectSchema projects (\<lambda>c s. s\<lparr>projects := c\<rparr>) st b =
    (st\<lparr>next_oid := Suc (next_oid st)\<rparr>,
     Some (respond 400 (Json (error_body ''E11000 duplicate key error collection: projects index: name_1 dup key''))))"
proof -
  have "dup_path projectSchema d (projects st) = Some (hd projectSchema)"
    using assms(3) by (force simp: dup_path_def projectSchema_def list_ex_iff)
  then show ?thesis using assms(1,2)
    by (simp add: post_resource_def Let_def doc_save_def projectSchema_def)
qed

theorem post_project_duplicate_witness:
  "post_resource ''Project'' ''projects'' projectSchema projects (\<lambda>c s. s\<lparr>projects := c\<rparr>)
     (empty_app\<lparr>next_oid := 1, projects := [(0, [(''name'', VStr ''Apollo'')])]\<rparr>) [(''name'', JStr ''Apollo'')] =
   (empty_app\<lparr>next_oid := 2, projects := [(0, [(''name'', VStr ''Apollo'')])]\<rparr>,
    Some (respond 400 (Json (error_body ''E11000 duplicate key error collection: projects index: name_1 dup key''))))"
proof -
  have d: "model_new ''Project'' projectSchema (date_parse (empty_app\<lparr>next_oid := 1, projects := [(0, [(''name'', VStr ''Apollo'')])]\<rparr>))
      (clock (empty_app\<lparr>next_oid := 1, projects := [(0, [(''name'', VStr ''Apollo'')])]\<rparr>)) [(''name'', JStr ''Apollo'')] =
    Inr [(''name'', VStr ''Apollo''), (''status'', VStr ''Planned''), (''createdAt'', VDate 1700000000000)]"
    by (simp add: model_new_def projectSchema_def init_path_def get_field_def empty_app_def)
  show ?thesis
    using post_project_duplicate [OF d] by (simp add: empty_app_def)
qed

text \<open>
  C26. \<open>POST /projects\<close> with a status outside the enum of
  \<open>projectSchema.js\<close> answers 400 with Mongoose's validation message and
  stores nothing.
\<close>

theorem post_project_bad_status:
  assumes "get_field b ''name'' = Some (JStr n)" "n \<noteq> []"
    and "get_field b ''description'' = None" "get_field b ''createdAt'' = None"
    and "get_field b ''status'' = Some (JStr s)" "s \<notin> {''Planned'', ''In Progress'', ''Completed''}"
  shows "post_resource ''Project'' ''projects'' projectSchema projects (\<lambda>c s. s\<lparr>projects := c\<rparr>) st b =
    (st\<lparr>next_oid := Suc (next_oid st)\<rparr>,
     Some (respond 400 (Json (error_body (''Project validation failed: status: `'' @ s @
                                         ''` is not a valid enum value for path `status`.'')))))"
  using assms
  by (simp add: post_resource_def Let_def model_new_def projectSchema_def init_path_def validation_error_def)

theorem post_project_bad_status_witness:
  "post_resource ''Project'' ''projects'' projectSchema projects (\<lambda>c s. s\<lparr>projects := c\<rparr>) empty_app
     [(''name'', JStr ''Apollo''), (''status'', JStr ''Done'')] =
   (empty_app\<lparr>next_oid := 1\<rparr>,
    Some (respond 400 (Json (error_body ''Project validation failed: status: `Done` is not a valid enum value for path `status`.''))))"
  by (rule trans [OF post_project_bad_status [where n = "''Apollo''" and s = "''Done''"]])
     (simp_all add: get_field_def empty_app_def)

text \<open>
  C27. With the database down, an authenticated \<open>GET\<close> of \<open>/me\<close>, \<open>/users\<close>,
  \<open>/projects\<close>, \<open>/teams\<close>, \<open>/tags\<close> or \<open>/tasks\<close> sends no response at all
  (the rejected query is not caught), and the state is unchanged.
\<close>

theorem reads_without_database_hang:
  assumes "req_method r = GET" "route_path (path r) \<in> {''/me'', ''/users'', ''/projects'', ''/teams'', ''/tags'', ''/tasks''}"
    and "\<not> db_up st" "verifyToken (jwt_secret st) (clock st) (authorization r) = Inr u"
  shows "dispatch st r = (st, None)"
  using assms
  by (auto simp: dispatch_def routes_def protected_def me_def user_findById_public_def get_users_def
                 user_find_public_def get_collection_def get_tasks_def)

theorem reads_without_database_hang_witness:
  "dispatch (empty_app\<lparr>db_up := False\<rparr>) \<lparr>req_method = GET, path = ''/tasks'', authorization = bearer0, req_body = JObj []\<rparr> =
   (empty_app\<lparr>db_up := False\<rparr>, None)"
  by (rule reads_without_database_hang [where u = 0])
     (simp_all add: route_path_def lower_char_def empty_app_def bearer0_def verifyToken_def)

lemma routes_answer:
  assumes "(k, handler) \<in> set (routes :: ((http_method \<times> string) \<times> 'a handler) list)" "db_up st"
  shows "snd (handler st h b) \<noteq> None"
  using assms
  by (auto simp: routes_def protected_def me_def user_findById_public_def get_users_def user_find_public_def
                 get_collection_def get_tasks_def post_resource_def post_tasks_def Let_def
           split: sum.split prod.split option.split)

text \<open>
  C34. While the database is connected, every request gets an answer: the
  only requests left without a response are those of C26, made while it is
  down.
\<close>

theorem every_request_answered:
  fixes st :: "'a app_scheme"
  assumes "db_up st"
  shows "snd (dispatch st r) \<noteq> None"
  using assms routes_answer [where 'a = 'a]
  by (auto simp: dispatch_def split: option.split dest: map_of_SomeD)

theorem every_request_answered_witness:
  "snd (dispatch empty_app \<lparr>req_method = GET, path = ''/tasks'', authorization = bearer0, req_body = JObj []\<rparr>) \<noteq> None"
  by (rule every_request_answered) (simp add: empty_app_def)

lemma routes_no_method:
  "m \<notin> {GET, POST} \<Longrightarrow> map_of (routes :: ((http_method \<times> string) \<times> 'a handler) list) (m, p) = None"
  by (cases m) (simp_all add: routes_def)

text \<open>
  C40. The CORS layer advertises \<open>PUT\<close> and \<open>DELETE\<close> to every preflight
  (204 with \<open>GET,POST,PUT,DELETE\<close> and \<open>Content-Type,Authorization\<close>), but no
  route takes them: the actual \<open>PUT\<close> or \<open>DELETE\<close> request gets Express's 404,
  with the origin header and without the state changing.
\<close>

theorem cors_advertises_unrouted:
  fixes st :: "'a app_scheme"
  assumes "req_method r \<in> {PUT, DELETE}"
  shows "snd (handle st (r\<lparr>req_method := OPTIONS\<rparr>)) =
           Some ([(''Access-Control-Allow-Origin'', ''*''),
                  (''Access-Control-Allow-Methods'', ''GET,POST,PUT,DELETE''),
                  (''Access-Control-Allow-Headers'', ''Content-Type,Authorization''),
                  (''Content-Length'', ''0'')], respond 204 (Text [])) \<and>
         handle st r =
           (st, Some ([(''Access-Control-Allow-Origin'', ''*'')],
                      respond 404 (Text (''Cannot '' @ method_name (req_method r) @ '' '' @ path r))))"
proof -
  have "map_of (routes :: ((http_method \<times> string) \<times> 'a handler) list) (req_method r, route_path (path r)) = None"
    using assms by (intro routes_no_method) auto
  then show ?thesis using assms
    by (auto simp: handle_def dispatch_def cors_headers_def cors_methods_def cors_allowed_headers_def)
qed

theorem cors_advertises_unrouted_witness:
  "snd (handle empty_app \<lparr>req_method = OPTIONS, path = ''/projects'', authorization = bearer0, req_body = JObj []\<rparr>) =
     Some ([(''Access-Control-Allow-Origin'', ''*''),
            (''Access-Control-Allow-Methods'', ''GET,POST,PUT,DELETE''),
            (''Access-Control-Allow-Headers'', ''Content-Type,Authorization''),
            (''Content-Length'', ''0'')], respond 204 (Text [])) \<and>
   handle empty_app \<lparr>req_method = DELETE, path = ''/projects'', authorization = bearer0, req_body = JObj []\<rparr> =
     (empty_app, Some ([(''Access-Control-Allow-Origin'', ''*'')], respond 404 (Text ''Cannot DELETE /projects'')))"
  using cors_advertises_unrouted [of "\<lparr>req_method = DELETE, path = ''/projects'', authorization = bearer0, req_body = JObj []\<rparr>" empty_app]
  by simp

end
