(* ===== verification/Start.thy ===== *)
theory Start
  imports App
begin

text \<open>
  Process start-up: \<open>initializeDatabase\<close> of \<open>src/db/db.connect.js\<close> and its
  caller at the end of \<open>src/index.js\<close> (lines 153-155), and the request
  loop of the listening process. \<open>mongoose.connect\<close> rejects an absent URI,
  a URI without a MongoDB scheme, and a server that does not answer within
  \<open>serverSelectionTimeoutMS\<close>; whether a server answers is a parameter of
  the model (\<open>answers\<close>). A rejection is caught, logged and ends the
  process with \<open>process.exit(1)\<close> before \<open>.then\<close> runs; otherwise the
  server listens on \<open>process.env.PORT || 5000\<close>. The process environment is
  a map from variable names to strings.
\<close>

type_synonym env = "string \<Rightarrow> string option"

section \<open>The environment\<close>

text \<open>
  \<open>require("dotenv").config()\<close> runs twice, at line 7 of \<open>src/index.js\<close> and at
  line 2 of \<open>src/db/db.connect.js\<close> (loaded by the \<open>require\<close> of line 9). Each
  call reads the entries of \<open>.env\<close> (given here already parsed, in file
  order; a later entry for a key replaces an earlier one) and sets every
  variable the process environment does not have yet; it never overrides one.
\<close>

definition dotenv_config :: "(string \<times> string) list \<Rightarrow> env \<Rightarrow> env" where
  "dotenv_config file env = (\<lambda>k. case env k of Some v \<Rightarrow> Some v | None \<Rightarrow> map_of (rev file) k)"

definition process_env :: "(string \<times> string) list \<Rightarrow> env \<Rightarrow> env" where
  "process_env file env = dotenv_config file (dotenv_config file env)"

section \<open>Configuration and connection\<close>

text \<open>\<open>const PORT = process.env.PORT || 5000\<close> (line 13): an empty string is falsy.\<close>

definition port_of :: "env \<Rightarrow> json" where
  "port_of env = (case env ''PORT'' of Some p \<Rightarrow> if p = [] then JNum 5000 else JStr p | None \<Rightarrow> JNum 5000)"

text \<open>The interpolation \<open>${PORT}\<close> of a template literal.\<close>

fun port_text :: "json \<Rightarrow> string" where
  "port_text (JStr s) = s"
| "port_text (JNum n) = show_int n"
| "port_text _ = []"

definition starts_with :: "string \<Rightarrow> string \<Rightarrow> bool" where
  "starts_with p s \<longleftrightarrow> take (length p) s = p"

definition uri_error :: string where
  "uri_error = ''The `uri` parameter to `openUri()` must be a string, got \"undefined\". Make sure the first parameter to `mongoose.connect()` or `mongoose.createConnection()` is a string.''"

definition scheme_error :: string where
  "scheme_error = ''Invalid scheme, expected connection string to start with \"mongodb://\" or \"mongodb+srv://\"''"

text \<open>\<open>serverSelectionTimeoutMS: 10000\<close> (db.connect.js line 11).\<close>

definition server_selection_timeout :: nat where
  "server_selection_timeout = 10000"

text \<open>
  \<open>await mongoose.connect(mongoUri, {...})\<close> with \<open>mongoUri =
  process.env.MONGODB\<close>: \<open>answers u\<close> says whether a server at \<open>u\<close> is
  selected within the timeout.
\<close>

definition mongoose_connect :: "(string \<Rightarrow> bool) \<Rightarrow> string option \<Rightarrow> string + unit" where
  "mongoose_connect answers uri =
     (case uri of
        None \<Rightarrow> Inl uri_error
      | Some u \<Rightarrow>
          if \<not> starts_with ''mongodb://'' u \<and> \<not> starts_with ''mongodb+srv://'' u then Inl scheme_error
          else if answers u then Inr ()
          else Inl (''Server selection timed out after '' @ show_nat server_selection_timeout @ '' ms''))"

section \<open>Start-up\<close>

text \<open>The two console glyphs, U+2705 and U+274C, as UTF-8 bytes.\<close>

definition check_mark :: string where
  "check_mark = [CHR 0xE2, CHR 0x9C, CHR 0x85]"

definition cross_mark :: string where
  "cross_mark = [CHR 0xE2, CHR 0x9D, CHR 0x8C]"

text \<open>
  The settled promise of \<open>initializeDatabase()\<close>: resolved after logging the
  connection, or the process exits with a code after logging the error
  (\<open>console.error(a, b)\<close> joins its arguments with a space).
\<close>

datatype init_result = Resolved "string list" | Exit nat "string list"

definition initializeDatabase :: "(string \<Rightarrow> bool) \<Rightarrow> env \<Rightarrow> init_result" where
  "initializeDatabase answers env =
     (case mongoose_connect answers (env ''MONGODB'') of
        Inr _ \<Rightarrow> Resolved [check_mark @ '' Connected to MongoDB'']
      | Inl m \<Rightarrow> Exit 1 [cross_mark @ '' Error connecting to MongoDB: '' @ m])"

datatype process = Exited nat | Listening json

text \<open>
  \<open>initializeDatabase().then(() => app.listen(PORT, () => console.log(...)))\<close>:
  the process outcome and its console output.
\<close>

definition main :: "(string \<Rightarrow> bool) \<Rightarrow> env \<Rightarrow> process \<times> string list" where
  "main answers env =
     (case initializeDatabase answers env of
        Exit c errs \<Rightarrow> (Exited c, errs)
      | Resolved out \<Rightarrow>
          (Listening (port_of env),
           out @ [check_mark @ '' Server running on port '' @ port_text (port_of env)]))"

section \<open>The listening process\<close>

text \<open>
  The state the first request meets: the database contents \<open>st\<close>, connected,
  and the secret \<open>process.env.JWT_SECRET\<close> that \<open>jwt.sign\<close> and the gate
  read (\<open>dotenv\<close> has loaded the environment at line 7).
\<close>

definition initial_app :: "env \<Rightarrow> 'a app_scheme \<Rightarrow> 'a app_scheme" where
  "initial_app env st = st\<lparr>jwt_secret := env ''JWT_SECRET'', db_up := True\<rparr>"

text \<open>Requests handled one after the other, each answer in order.\<close>

fun serve :: "'a app_scheme \<Rightarrow> request list \<Rightarrow> 'a app_scheme \<times> reply response option list" where
  "serve st [] = (st, [])"
| "serve st (r # rs) =
     (case dispatch st r of (st', a) \<Rightarrow> case serve st' rs of (st'', as) \<Rightarrow> (st'', a # as))"

text \<open>A run of the program: no request is served by a process that exited.\<close>

definition run ::
  "(string \<Rightarrow> bool) \<Rightarrow> env \<Rightarrow> 'a app_scheme \<Rightarrow> request list
     \<Rightarrow> ('a app_scheme \<times> reply response option list) option" where
  "run answers env st reqs =
     (case fst (main answers env) of
        Listening _ \<Rightarrow> Some (serve (initial_app env st) reqs)
      | Exited _ \<Rightarrow> None)"

section \<open>Lemmas\<close>

text \<open>
  The second \<open>config()\<close> changes nothing, and a variable of the real
  environment (such as \<open>JWT_SECRET\<close> or \<open>MONGODB\<close>) always wins over \<open>.env\<close>.
\<close>

lemma process_env_eq:
  "process_env file env = dotenv_config file env"
  "env k = Some v \<Longrightarrow> process_env file env k = Some v"
  by (auto simp: process_env_def dotenv_config_def fun_eq_iff split: option.split)

lemma main_Listening_iff:
  "(\<exists>p. fst (main answers env) = Listening p) \<longleftrightarrow> mongoose_connect answers (env ''MONGODB'') = Inr ()"
  by (cases "mongoose_connect answers (env ''MONGODB'')") (simp_all add: main_def initializeDatabase_def)

lemma serve_Cons_eq:
  "serve st (r # rs) =
     (fst (serve (fst (dispatch st r)) rs), snd (dispatch st r) # snd (serve (fst (dispatch st r)) rs))"
  by (simp split: prod.split)

lemma serve_reach: "reach s0 st \<Longrightarrow> reach s0 (fst (serve st rs))"
proof (induction rs arbitrary: st)
  case Nil
  then show ?case by simp
next
  case (Cons r rs)
  have "reach s0 (fst (dispatch st r))" using reach.request [OF Cons.prems] .
  then show ?case using Cons.IH by (simp only: serve_Cons_eq fst_conv)
qed

lemma length_serve [simp]: "length (snd (serve st rs)) = length rs"
  by (induction rs arbitrary: st) (simp_all only: serve_Cons_eq snd_conv length_Cons serve.simps list.size)

lemma app_inv_initial [simp]: "app_inv (initial_app env st) = app_inv st"
  by (simp add: initial_app_def app_inv_def server_inv_def store_inv_def all_ids_def)

lemma login_200_secret: "status (login st b) = 200 \<Longrightarrow> \<exists>k. jwt_secret st = Some k"
  by (auto simp: login_def Let_def respond_def server_error_def jwt_sign_Inr_iff
           split: sum.splits option.splits if_splits bool.splits)

lemma route_login: "route_path ''/login'' = ''/login''"
  by (simp add: route_path_def lower_char_def)

section \<open>Properties of start-up and runs\<close>

text \<open>
  C28. The program serves requests exactly when \<open>mongoose.connect\<close> to
  \<open>process.env.MONGODB\<close> succeeds: a failed connection halts the process
  before it accepts traffic (spec section 6).
\<close>

theorem run_requires_connection:
  "run answers env st reqs \<noteq> None \<longleftrightarrow> mongoose_connect answers (env ''MONGODB'') = Inr ()"
  using main_Listening_iff [of answers env]
  by (cases "fst (main answers env)") (auto simp: run_def)

text \<open>
  C29. With \<open>MONGODB\<close> unset, start-up logs Mongoose's URI error and the
  process exits with code 1, without listening.
\<close>

theorem startup_missing_uri:
  assumes "env ''MONGODB'' = None"
  shows "main answers env = (Exited 1, [cross_mark @ '' Error connecting to MongoDB: '' @ uri_error])"
  using assms by (simp add: main_def initializeDatabase_def mongoose_connect_def)

theorem startup_missing_uri_witness:
  "main (\<lambda>_. True) (\<lambda>_. None) = (Exited 1, [cross_mark @ '' Error connecting to MongoDB: '' @ uri_error])"
  by (rule startup_missing_uri) simp

text \<open>
  After a successful connection the process listens on
  \<open>process.env.PORT\<close>, or on 5000 when it is unset or empty, and logs the
  connection and the port.
\<close>

theorem startup_listening:
  assumes "mongoose_connect answers (env ''MONGODB'') = Inr ()"
  shows "main answers env =
    (Listening (port_of env),
     [check_mark @ '' Connected to MongoDB'',
      check_mark @ '' Server running on port '' @
        (case env ''PORT'' of None \<Rightarrow> ''5000'' | Some p \<Rightarrow> if p = [] then ''5000'' else p)])"
  using assms
  by (simp add: main_def initializeDatabase_def port_of_def show_int_def digit_char_def split: option.split)

theorem startup_listening_witness:
  "main (\<lambda>_. True) (\<lambda>x. if x = ''MONGODB'' then Some ''mongodb://db/workasana'' else None) =
    (Listening (JNum 5000),
     [check_mark @ '' Connected to MongoDB'', check_mark @ '' Server running on port 5000''])"
  by (rule trans [OF startup_listening]) (simp_all add: mongoose_connect_def starts_with_def port_of_def)

text \<open>
  Start-up does not read \<open>JWT_SECRET\<close>: its outcome and output are the
  same whatever the secret is, set or not (spec 4.3 asks the issuer to refuse
  to start without it).
\<close>

theorem startup_ignores_secret:
  "main answers (env(''JWT_SECRET'' := v)) = main answers env"
proof -
  have "port_of (env(''JWT_SECRET'' := v)) = port_of env" by (simp add: port_of_def)
  moreover have "(env(''JWT_SECRET'' := v)) ''MONGODB'' = env ''MONGODB''" by simp
  ultimately show ?thesis by (simp only: main_def initializeDatabase_def)
qed

text \<open>
  C30. A process started without \<open>JWT_SECRET\<close> accepts a login request, routes
  it to the login handler, and never answers it with 200: no login can
  succeed.
\<close>

theorem started_without_secret:
  assumes "env ''JWT_SECRET'' = None" "mongoose_connect answers (env ''MONGODB'') = Inr ()"
  shows "run answers env st [\<lparr>req_method = POST, path = ''/login'', authorization = h, req_body = JObj b\<rparr>] =
           Some (initial_app env st, [Some (login (initial_app env st) b)]) \<and>
         status (login (initial_app env st) b) \<noteq> 200"
proof
  obtain p where "fst (main answers env) = Listening p" using main_Listening_iff assms(2) by blast
  then show "run answers env st [\<lparr>req_method = POST, path = ''/login'', authorization = h, req_body = JObj b\<rparr>] =
           Some (initial_app env st, [Some (login (initial_app env st) b)])"
    by (simp add: run_def dispatch_def route_login routes_def)
  show "status (login (initial_app env st) b) \<noteq> 200"
    using login_200_secret [of "initial_app env st" b] assms(1) by (auto simp: initial_app_def)
qed

theorem started_without_secret_witness:
  "run (\<lambda>_. True) (\<lambda>x. if x = ''MONGODB'' then Some ''mongodb://db/workasana'' else None) (empty_app\<lparr>users := [ada], next_oid := 1\<rparr>)
      [\<lparr>req_method = POST, path = ''/login'', authorization = None,
        req_body = JObj [(''email'', JStr ''ada@x.com''), (''password'', JStr ''secret123'')]\<rparr>] =
     Some (initial_app (\<lambda>x. if x = ''MONGODB'' then Some ''mongodb://db/workasana'' else None) (empty_app\<lparr>users := [ada], next_oid := 1\<rparr>),
           [Some (login (initial_app (\<lambda>x. if x = ''MONGODB'' then Some ''mongodb://db/workasana'' else None) (empty_app\<lparr>users := [ada], next_oid := 1\<rparr>))
                   [(''email'', JStr ''ada@x.com''), (''password'', JStr ''secret123'')])]) \<and>
   status (login (initial_app (\<lambda>x. if x = ''MONGODB'' then Some ''mongodb://db/workasana'' else None) (empty_app\<lparr>users := [ada], next_oid := 1\<rparr>))
                   [(''email'', JStr ''ada@x.com''), (''password'', JStr ''secret123'')]) \<noteq> 200"
  by (rule started_without_secret) (simp_all add: mongoose_connect_def starts_with_def)



end
