(* ===== verification/Race.thy ===== *)
theory Race
  imports Auth
begin

text \<open>
  Concurrent signups. Node runs one continuation at a time, so the handler of
  \<open>POST /signup\<close> (\<open>src/index.js\<close> lines 36-54) is a sequence of atomic
  segments separated by its three \<open>await\<close>s, and the segments of concurrent
  requests interleave in any order. A thread is at one of the program points
  \<open>Start\<close> (before line 38), \<open>Found\<close> (line 42 resumed with the result of
  \<open>findOne\<close>), \<open>Hashed\<close> (line 46 resumed with the digest) or \<open>Answered\<close>. A
  schedule is the list of the threads whose next segment runs. The
  composition of the three segments is the handler \<open>signup\<close> of \<open>Auth\<close>; under
  interleaving the check of line 42 and the insert of line 48 are no longer
  atomic, and only the unique index on \<open>email\<close> keeps emails unique
  (spec section 5: that atomicity is delegated to the storage layer).
\<close>

datatype signup_pc =
    Start body
  | Found body "string + user option"
  | Hashed body digest
  | Answered "reply response"

text \<open>One segment of the handler, run for the thread at program point \<open>pc\<close>.\<close>

fun signup_step :: "'a server_scheme \<Rightarrow> signup_pc \<Rightarrow> 'a server_scheme \<times> signup_pc" where
  "signup_step st (Start b) =
     (let n = get_field b ''name''; e = get_field b ''email''; p = get_field b ''password'' in
      if \<not> js_truthy n \<or> \<not> js_truthy e \<or> \<not> js_truthy p
      then (st, Answered (respond 400 (Json (message ''All fields are required''))))
      else (st, Found b (user_findOne st e)))"
| "signup_step st (Found b r) =
     (case r of
        Inl err \<Rightarrow> (st, Answered (server_error err))
      | Inr (Some _) \<Rightarrow> (st, Answered (respond 400 (Json (message ''User already exists''))))
      | Inr None \<Rightarrow>
          (case bcrypt_hash (get_field b ''password'') bcrypt_rounds (salt_rng st) of
             Inl err \<Rightarrow> (st, Answered (server_error err))
           | Inr d \<Rightarrow> (st\<lparr>salt_rng := Suc (salt_rng st)\<rparr>, Hashed b d)))"
| "signup_step st (Hashed b d) =
     (case new_user st (get_field b ''name'') (get_field b ''email'') d of
        (r, st1) \<Rightarrow>
          (case ebind r (user_save st1) of
             Inl err \<Rightarrow> (st1, Answered (server_error err))
           | Inr st2 \<Rightarrow> (st2, Answered (respond 201 (Json (message ''Signup successful! Please login.''))))))"
| "signup_step st (Answered r) = (st, Answered r)"

text \<open>Running a schedule: each entry names the thread whose next segment runs.\<close>

fun run_sched :: "'a server_scheme \<Rightarrow> signup_pc list \<Rightarrow> nat list \<Rightarrow> 'a server_scheme \<times> signup_pc list" where
  "run_sched st ps [] = (st, ps)"
| "run_sched st ps (i # is) =
     (if i < length ps
      then (case signup_step st (ps ! i) of (st', p') \<Rightarrow> run_sched st' (ps[i := p']) is)
      else run_sched st ps is)"

text \<open>The segments a thread still has to run.\<close>

fun rank :: "signup_pc \<Rightarrow> nat" where
  "rank (Start _) = 3"
| "rank (Found _ _) = 2"
| "rank (Hashed _ _) = 1"
| "rank (Answered _) = 0"

fun answer :: "signup_pc \<Rightarrow> reply response option" where
  "answer (Answered r) = Some r"
| "answer _ = None"

text \<open>The salt a thread holds between hashing and saving.\<close>

fun held :: "signup_pc \<Rightarrow> nat option list" where
  "held (Hashed _ d) = [salt_of d]"
| "held _ = []"

text \<open>Every salt in use: those of the stored digests, then those threads hold.\<close>

definition salts :: "'a server_scheme \<Rightarrow> signup_pc list \<Rightarrow> nat option list" where
  "salts st ps = map (\<lambda>u. salt_of (password u)) (users st) @ concat (map held ps)"

text \<open>
  The invariant of the concurrent system: the store invariant, and the salts
  in use are distinct and drawn from the generator before its current value.
  With no thread between hashing and saving it is the server invariant.
\<close>

definition race_inv :: "'a server_scheme \<Rightarrow> signup_pc list \<Rightarrow> bool" where
  "race_inv st ps \<longleftrightarrow> store_inv st \<and> distinct (salts st ps) \<and>
     (\<forall>x \<in> set (salts st ps). \<exists>s. x = Some s \<and> s < salt_rng st)"

section \<open>Lemmas\<close>

lemma rank_step: "rank (snd (signup_step st p)) \<le> rank p - 1"
  by (cases "(st, p)" rule: signup_step.cases)
     (auto simp: Let_def split: sum.split option.split prod.split)

lemma length_run_sched [simp]: "length (snd (run_sched st ps is)) = length ps"
  by (induction st ps "is" rule: run_sched.induct) (auto split: prod.split)

lemma rank_run_sched:
  "i < length ps \<Longrightarrow> rank (snd (run_sched st ps is) ! i) \<le> rank (ps ! i) - count_list is i"
proof (induction st ps "is" rule: run_sched.induct)
  case (1 st ps)
  then show ?case by simp
next
  case (2 st ps j js)
  show ?case
  proof (cases "j < length ps")
    case True
    obtain st' p' where s: "signup_step st (ps ! j) = (st', p')" by fastforce
    have r: "rank p' \<le> rank (ps ! j) - 1" using rank_step [of st "ps ! j"] s by simp
    have "rank (snd (run_sched st' (ps[j := p']) js) ! i) \<le> rank (ps[j := p'] ! i) - count_list js i"
      using 2(1) [OF True s [symmetric]] 2(3) by simp
    then show ?thesis using True s r by (cases "i = j") auto
  next
    case False
    then show ?thesis using 2(2) 2(3) by auto
  qed
qed

lemma race_inv_server: "race_inv st ps \<Longrightarrow> server_inv st"
  by (simp add: race_inv_def salts_def server_inv_def)

lemma held_Start [simp]: "concat (map (held \<circ> Start) bs) = []"
  by (induction bs) auto

lemma race_inv_init: "server_inv st \<Longrightarrow> race_inv st (map Start bs)"
  by (simp add: race_inv_def salts_def server_inv_def)

lemma concat_map_update:
  "i < length ps \<Longrightarrow>
     concat (map f (ps[i := x])) = concat (map f (take i ps)) @ f x @ concat (map f (drop (Suc i) ps))"
  by (simp add: upd_conv_take_nth_drop)

lemma concat_map_nth:
  "i < length ps \<Longrightarrow>
     concat (map f ps) = concat (map f (take i ps)) @ f (ps ! i) @ concat (map f (drop (Suc i) ps))"
  by (metis concat_map_update list_update_id)

lemma race_inv_drop:
  assumes "race_inv st ps" "i < length ps" "held p' = []" "store_inv st'"
    and "users st' = users st" "salt_rng st' = salt_rng st"
  shows "race_inv st' (ps[i := p'])"
proof -
  define U where "U = map (\<lambda>u. salt_of (password u)) (users st)"
  define A where "A = concat (map held (take i ps))"
  define B where "B = concat (map held (drop (Suc i) ps))"
  have old: "salts st ps = U @ A @ held (ps ! i) @ B"
    using concat_map_nth [OF assms(2), of held] by (simp add: salts_def U_def A_def B_def)
  have new: "salts st' (ps[i := p']) = U @ A @ B"
    using concat_map_update [OF assms(2), of held p'] assms(3,5) by (simp add: salts_def U_def A_def B_def)
  have "distinct (U @ A @ held (ps ! i) @ B)" "\<forall>x \<in> set (U @ A @ held (ps ! i) @ B). \<exists>s. x = Some s \<and> s < salt_rng st"
    using assms(1) old by (simp_all add: race_inv_def)
  then have "distinct (U @ A @ B)" "\<forall>x \<in> set (U @ A @ B). \<exists>s. x = Some s \<and> s < salt_rng st"
    by auto
  then show ?thesis using new assms(4,6) by (simp add: race_inv_def)
qed

lemma race_inv_hash:
  assumes "race_inv st ps" "i < length ps" "held (ps ! i) = []"
  shows "race_inv (st\<lparr>salt_rng := Suc (salt_rng st)\<rparr>) (ps[i := Hashed b (BCrypt c (salt_rng st) k)])"
proof -
  define U where "U = map (\<lambda>u. salt_of (password u)) (users st)"
  define A where "A = concat (map held (take i ps))"
  define B where "B = concat (map held (drop (Suc i) ps))"
  have old: "salts st ps = U @ A @ B"
    using concat_map_nth [OF assms(2), of held] assms(3) by (simp add: salts_def U_def A_def B_def)
  have new: "salts (st\<lparr>salt_rng := Suc (salt_rng st)\<rparr>) (ps[i := Hashed b (BCrypt c (salt_rng st) k)]) =
             U @ A @ [Some (salt_rng st)] @ B"
    using concat_map_update [OF assms(2), of held] by (simp add: salts_def U_def A_def B_def)
  have d: "distinct (U @ A @ B)" and r: "\<forall>x \<in> set (U @ A @ B). \<exists>s. x = Some s \<and> s < salt_rng st"
    using assms(1) old by (simp_all add: race_inv_def)
  then have "Some (salt_rng st) \<notin> set (U @ A @ B)" by fastforce
  then have "distinct (U @ A @ [Some (salt_rng st)] @ B)" using d by auto
  moreover have "\<forall>x \<in> set (U @ A @ [Some (salt_rng st)] @ B). \<exists>s. x = Some s \<and> s < Suc (salt_rng st)"
  proof
    fix x assume "x \<in> set (U @ A @ [Some (salt_rng st)] @ B)"
    then have "x = Some (salt_rng st) \<or> x \<in> set (U @ A @ B)" by auto
    then show "\<exists>s. x = Some s \<and> s < Suc (salt_rng st)" using r less_SucI by blast
  qed
  moreover have "store_inv (st\<lparr>salt_rng := Suc (salt_rng st)\<rparr>)"
    using assms(1) by (simp add: race_inv_def store_inv_def)
  ultimately show ?thesis using new by (simp add: race_inv_def)
qed

lemma race_inv_save:
  assumes "race_inv st ps" "i < length ps" "ps ! i = Hashed b (password u)" "held p' = []"
    and "store_inv st2" "users st2 = users st @ [u]" "salt_rng st2 = salt_rng st"
  shows "race_inv st2 (ps[i := p'])"
proof -
  define U where "U = map (\<lambda>u. salt_of (password u)) (users st)"
  define A where "A = concat (map held (take i ps))"
  define B where "B = concat (map held (drop (Suc i) ps))"
  have old: "salts st ps = U @ A @ [salt_of (password u)] @ B"
    using concat_map_nth [OF assms(2), of held] assms(3) by (simp add: salts_def U_def A_def B_def)
  have new: "salts st2 (ps[i := p']) = (U @ [salt_of (password u)]) @ A @ B"
    using concat_map_update [OF assms(2), of held p'] assms(4,6) by (simp add: salts_def U_def A_def B_def)
  have "distinct (U @ A @ [salt_of (password u)] @ B)"
       "\<forall>x \<in> set (U @ A @ [salt_of (password u)] @ B). \<exists>s. x = Some s \<and> s < salt_rng st"
    using assms(1) old by (simp_all add: race_inv_def)
  then have "distinct ((U @ [salt_of (password u)]) @ A @ B)"
       "\<forall>x \<in> set ((U @ [salt_of (password u)]) @ A @ B). \<exists>s. x = Some s \<and> s < salt_rng st"
    by auto
  then show ?thesis using new assms(5,7) by (simp add: race_inv_def)
qed

lemma race_inv_step:
  assumes "race_inv st ps" "i < length ps" "signup_step st (ps ! i) = (st', p')"
  shows "race_inv st' (ps[i := p'])"
proof -
  have si: "store_inv st" using assms(1) by (simp add: race_inv_def)
  show ?thesis
  proof (cases "ps ! i")
    case (Start b)
    then have "st' = st" and h: "held p' = []" using assms(3) by (auto simp: Let_def split: if_splits)
    then show ?thesis using race_inv_drop [OF assms(1,2) h si refl refl] by simp
  next
    case (Found b r)
    show ?thesis
    proof (cases "\<exists>d. r = Inr None \<and> bcrypt_hash (get_field b ''password'') bcrypt_rounds (salt_rng st) = Inr d")
      case True
      then obtain d where r: "r = Inr None" and h: "bcrypt_hash (get_field b ''password'') bcrypt_rounds (salt_rng st) = Inr d"
        by blast
      then obtain p where "d = BCrypt bcrypt_rounds (salt_rng st) (bcrypt_key p)" using bcrypt_hash_Inr_iff by blast
      moreover have "st' = st\<lparr>salt_rng := Suc (salt_rng st)\<rparr>" "p' = Hashed b d" using assms(3) Found r h by simp_all
      ultimately show ?thesis using race_inv_hash [OF assms(1,2)] Found by simp
    next
      case False
      then have "st' = st" and h: "held p' = []" using assms(3) Found
        by (auto split: sum.splits option.splits)
      then show ?thesis using race_inv_drop [OF assms(1,2) h si refl refl] by simp
    qed
  next
    case (Hashed b d)
    obtain r st1 where nu: "new_user st (get_field b ''name'') (get_field b ''email'') d = (r, st1)" by fastforce
    have st1: "st1 = st\<lparr>next_oid := Suc (next_oid st)\<rparr>" using nu new_user_state by (metis snd_conv)
    show ?thesis
    proof (cases "ebind r (user_save st1)")
      case (Inl err)
      then have "st' = st1" and h: "held p' = []" using assms(3) Hashed nu by auto
      moreover have "store_inv st1" using store_inv_next_oid [OF si] st1 by simp
      ultimately show ?thesis using race_inv_drop [OF assms(1,2) h, of st1] st1 by simp
    next
      case (Inr st2)
      then obtain u where u: "r = Inr u" "user_save st1 u = Inr st2" by (auto simp: ebind_eq_Inr_iff)
      have e: "st' = st2" and h: "held p' = []" using assms(3) Hashed nu Inr by auto
      have s2: "store_inv st2" using store_inv_new_user_save [OF si] nu u by simp
      have us: "users st2 = users st @ [u]" "salt_rng st2 = salt_rng st"
        using u(2) st1 by (auto simp: user_save_Inr_iff)
      have "password u = d" using nu u(1) new_user_Inr [of st _ _ d u] by (metis fst_conv user.select_convs(4))
      then have "ps ! i = Hashed b (password u)" using Hashed by simp
      from race_inv_save [OF assms(1,2) this h s2 us] e show ?thesis by simp
    qed
  next
    case (Answered r)
    then have "st' = st" and "p' = Answered r" using assms(3) by simp_all
    then have "st' = st" and h: "held p' = []" by simp_all
    then show ?thesis using race_inv_drop [OF assms(1,2) h si refl refl] by simp
  qed
qed

lemma race_inv_run: "race_inv st ps \<Longrightarrow> race_inv (fst (run_sched st ps is)) (snd (run_sched st ps is))"
  by (induction st ps "is" rule: run_sched.induct) (auto simp: race_inv_step split: prod.split)

lemma rank_0_answer: "rank p = 0 \<Longrightarrow> answer p \<noteq> None"
  by (cases p) auto

section \<open>Properties of concurrent signups\<close>


text \<open>
  C36. Under every interleaving of any number of concurrent signups, the
  server invariant holds at the end: emails, ids and salts stay unique,
  the unique index on \<open>email\<close> doing what the check of line 42 no longer can.
\<close>

theorem race_keeps_inv:
  assumes "server_inv st" "run_sched st (map Start bs) sched = (st', ps')"
  shows "server_inv st'"
  using race_inv_run [OF race_inv_init [OF assms(1)], of bs sched] assms(2) race_inv_server by simp

theorem race_keeps_inv_witness:
  "server_inv (fst (run_sched fresh_server
      (map Start [[(''name'', JStr ''Ada''), (''email'', JStr ''ada@x.com''), (''password'', JStr ''pw'')],
                  [(''name'', JStr ''Eve''), (''email'', JStr ''ada@x.com''), (''password'', JStr ''pw2'')]])
      [0, 1, 0, 1, 0, 1]))"
  by (rule race_keeps_inv [OF _ prod.collapse [symmetric]]) (simp add: server_inv_def store_inv_def fresh_server_def)

text \<open>
  C37. Every concurrent signup terminates with an answer once the scheduler
  has run it three times: each segment brings its thread closer to an answer.
\<close>

theorem race_signups_finish:
  assumes "\<forall>i < length bs. 3 \<le> count_list sched i"
  shows "\<forall>p \<in> set (snd (run_sched st (map Start bs) sched)). answer p \<noteq> None"
proof
  fix p assume "p \<in> set (snd (run_sched st (map Start bs) sched))"
  then obtain i where i: "i < length bs" "p = snd (run_sched st (map Start bs) sched) ! i"
    by (auto simp: in_set_conv_nth)
  have "rank p \<le> 3 - count_list sched i" using rank_run_sched [of i "map Start bs" st sched] i by simp
  then have "rank p = 0" using assms i(1) by simp
  then show "answer p \<noteq> None" by (rule rank_0_answer)
qed

theorem race_signups_finish_witness:
  "list_all (\<lambda>p. answer p \<noteq> None) (snd (run_sched fresh_server
      (map Start [[(''name'', JStr ''Ada'')], [(''email'', JStr ''x'')]]) [1, 0, 1, 0, 0, 1]))"
  unfolding list_all_iff by (rule race_signups_finish) (simp add: less_Suc_eq)

text \<open>
  C38. Two concurrent signups with the same new email, interleaved, both pass
  the check of line 42; the first is stored (201) and the second is refused
  by the unique index and answered 500 with the E11000 message, where the
  same requests one after the other get 201 and 400 "User already exists"
  (spec section 6 classes a duplicate key as a 400 ConflictError).
\<close>

theorem race_duplicate_500:
  assumes "get_field b ''name'' = Some (JStr n)" "n \<noteq> []" "get_field b ''email'' = Some (JStr e)" "e \<noteq> []"
    and "get_field b ''password'' = Some (JStr p)" "p \<noteq> []" "db_up st" "e \<notin> email ` set (users st)"
  shows "snd (run_sched st [Start b, Start b] [0, 1, 0, 1, 0, 1]) =
           [Answered (respond 201 (Json (message ''Signup successful! Please login.''))),
            Answered (server_error (''E11000 duplicate key error collection: users index: email_1 dup key: { email: \"''
                                    @ e @ ''\" }''))] \<and>
         snd (run_sched st [Start b, Start b] [0, 0, 0, 1, 1, 1]) =
           [Answered (respond 201 (Json (message ''Signup successful! Please login.''))),
            Answered (respond 400 (Json (message ''User already exists'')))]"
proof -
  have "find (\<lambda>u. email u = e) (users st) = None" using assms(8) by (auto simp: find_None_iff')
  then show ?thesis using assms
    by (simp add: Let_def new_user_def user_save_def find_append_None)
qed

theorem race_duplicate_500_witness:
  "snd (run_sched fresh_server [Start [(''name'', JStr ''Ada''), (''email'', JStr ''ada@x.com''), (''password'', JStr ''pw'')],
                                Start [(''name'', JStr ''Ada''), (''email'', JStr ''ada@x.com''), (''password'', JStr ''pw'')]]
        [0, 1, 0, 1, 0, 1]) =
     [Answered (respond 201 (Json (message ''Signup successful! Please login.''))),
      Answered (server_error ''E11000 duplicate key error collection: users index: email_1 dup key: { email: \"ada@x.com\" }'')]"
  using race_duplicate_500 [of "[(''name'', JStr ''Ada''), (''email'', JStr ''ada@x.com''), (''password'', JStr ''pw'')]"
                              "''Ada''" "''ada@x.com''" "''pw''" fresh_server]
  by (simp add: get_field_def fresh_server_def)

end
