(* ===== verification/Typing.thy ===== *)
theory Typing
  imports App
begin

text \<open>
  Stored documents conform to their schema. Mongoose casts every path of
  \<open>new Model(req.body)\<close> to its schema type and \<open>save()\<close> runs the
  validators, so what a create route stores is typed: each stored value has
  the type of its path and passes the path's validators, and every required
  path is present. As in a typed language with a state typing, the type of a
  stored value is a function of the value (\<open>sval_type\<close>), a document is
  typed by a schema (\<open>doc_typed\<close>), and the collections of the application
  state are typed by their schemas (\<open>app_typed\<close>), which every request
  preserves. The property needs schemas whose defaults have the path's type
  (\<open>schema_wf\<close>); \<open>projectSchema\<close> is one.
\<close>

section \<open>Typing of documents\<close>

fun sval_type :: "sval \<Rightarrow> stype" where
  "sval_type (VStr _) = SString"
| "sval_type (VDate _) = SDate"
| "sval_type (VRefs _) = SRefs"

definition path_typed :: "path_spec \<Rightarrow> sval \<Rightarrow> bool" where
  "path_typed p v \<longleftrightarrow> sval_type v = ptype p \<and> check_path p (Some v) = None"

definition doc_typed :: "schema \<Rightarrow> doc \<Rightarrow> bool" where
  "doc_typed sch d \<longleftrightarrow>
     (\<forall>(k, v) \<in> set d. \<exists>p \<in> set sch. pname p = k \<and> path_typed p v) \<and>
     (\<forall>p \<in> set sch. prequired p \<longrightarrow> map_of d (pname p) \<noteq> None)"

definition schema_wf :: "schema \<Rightarrow> bool" where
  "schema_wf sch \<longleftrightarrow>
     (\<forall>p \<in> set sch. (\<forall>s. pdefault p = DefaultStr s \<longrightarrow> ptype p = SString) \<and>
                    (pdefault p = DefaultNow \<longrightarrow> ptype p = SDate))"

definition coll_typed :: "schema \<Rightarrow> collection \<Rightarrow> bool" where
  "coll_typed sch c \<longleftrightarrow> (\<forall>(i, d) \<in> set c. doc_typed sch d)"

definition app_typed :: "'a app_scheme \<Rightarrow> bool" where
  "app_typed st \<longleftrightarrow>
     schema_wf (teamSchema st) \<and> schema_wf (tagSchema st) \<and> schema_wf (taskSchema st) \<and>
     coll_typed projectSchema (projects st) \<and> coll_typed (teamSchema st) (teams st) \<and>
     coll_typed (tagSchema st) (tags st) \<and> coll_typed (taskSchema st) (tasks st)"

section \<open>Lemmas\<close>

lemma cast_path_type: "cast_path dp k t v = Inr (Some x) \<Longrightarrow> sval_type x = t"
  by (cases t) (auto split: json.splits if_splits option.splits simp: ebind_eq_Inr_iff)

lemma init_path_type:
  "schema_wf (p # ps) \<Longrightarrow> init_path dp now b p = Inr (Some x) \<Longrightarrow> sval_type x = ptype p"
  by (auto simp: init_path_def schema_wf_def cast_path_type split: option.splits dflt.splits if_splits)

lemma build_doc_typed:
  "schema_wf sch \<Longrightarrow> build_doc dp now b sch = ([], d) \<Longrightarrow> doc_typed sch d"
proof (induction sch arbitrary: d)
  case Nil
  then show ?case by (simp add: doc_typed_def)
next
  case (Cons p ps)
  obtain es d0 where r: "build_doc dp now b ps = (es, d0)" by fastforce
  obtain v where v: "init_path dp now b p = Inr v" and c: "check_path p v = None" and "es = []"
    and d: "d = (case v of None \<Rightarrow> d0 | Some x \<Rightarrow> (pname p, x) # d0)"
    using Cons.prems(2) r by (auto split: sum.splits option.splits)
  have wf: "schema_wf ps" using Cons.prems(1) by (simp add: schema_wf_def)
  have t0: "doc_typed ps d0" using Cons.IH [OF wf] r \<open>es = []\<close> by simp
  have req: "prequired p \<Longrightarrow> v \<noteq> None" using c by (cases v) auto
  show ?case
  proof (cases v)
    case None
    then show ?thesis using t0 d req by (auto simp: doc_typed_def)
  next
    case (Some x)
    have "path_typed p x"
      using init_path_type [OF Cons.prems(1)] v c Some by (simp add: path_typed_def)
    then show ?thesis using t0 d Some by (auto simp: doc_typed_def)
  qed
qed

lemma model_new_typed: "schema_wf sch \<Longrightarrow> model_new m sch dp now b = Inr d \<Longrightarrow> doc_typed sch d"
  by (auto simp: model_new_def split: prod.splits if_splits intro: build_doc_typed)

lemma schema_wf_projectSchema: "schema_wf projectSchema"
  by (simp add: schema_wf_def projectSchema_def)

lemma coll_typed_append:
  "coll_typed sch c \<Longrightarrow> doc_typed sch d \<Longrightarrow> coll_typed sch (c @ [(i, d)])"
  by (auto simp: coll_typed_def)

lemma post_resource_new:
  "fst (post_resource model coll sch sel upd st b) = st\<lparr>next_oid := Suc (next_oid st)\<rparr> \<or>
   (\<exists>d. model_new model sch (date_parse st) (clock st) b = Inr d \<and>
        fst (post_resource model coll sch sel upd st b) =
          upd (sel (st\<lparr>next_oid := Suc (next_oid st)\<rparr>) @ [(next_oid st, d)]) (st\<lparr>next_oid := Suc (next_oid st)\<rparr>))"
  by (auto simp: post_resource_def Let_def doc_save_def split: sum.splits if_splits option.splits)

lemma app_typed_frame [simp]:
  "app_typed (st\<lparr>next_oid := n\<rparr>) = app_typed st"
  "app_typed (st\<lparr>clock := t\<rparr>) = app_typed st"
  "app_typed (st\<lparr>db_up := up\<rparr>) = app_typed st"
  by (simp_all add: app_typed_def)

lemma post_resource_typed:
  assumes "schema_wf sch" "sel (st\<lparr>next_oid := Suc (next_oid st)\<rparr>) = sel st" "coll_typed sch (sel st)"
    and "app_typed st"
    and "\<And>d. coll_typed sch (sel st @ [(next_oid st, d)]) \<Longrightarrow>
            app_typed (upd (sel st @ [(next_oid st, d)]) (st\<lparr>next_oid := Suc (next_oid st)\<rparr>))"
  shows "app_typed (fst (post_resource model coll sch sel upd st b))"
proof (rule disjE [OF post_resource_new [of model coll sch sel upd st b]])
  assume "fst (post_resource model coll sch sel upd st b) = st\<lparr>next_oid := Suc (next_oid st)\<rparr>"
  then show ?thesis using assms(4) by simp
next
  assume "\<exists>d. model_new model sch (date_parse st) (clock st) b = Inr d \<and>
        fst (post_resource model coll sch sel upd st b) =
          upd (sel (st\<lparr>next_oid := Suc (next_oid st)\<rparr>) @ [(next_oid st, d)]) (st\<lparr>next_oid := Suc (next_oid st)\<rparr>)"
  then obtain d where d: "model_new model sch (date_parse st) (clock st) b = Inr d"
    and e: "fst (post_resource model coll sch sel upd st b) =
          upd (sel st @ [(next_oid st, d)]) (st\<lparr>next_oid := Suc (next_oid st)\<rparr>)"
    using assms(2) by auto
  have "coll_typed sch (sel st @ [(next_oid st, d)])"
    using coll_typed_append [OF assms(3) model_new_typed [OF assms(1) d]] .
  then show ?thesis using assms(5) e by simp
qed

lemma post_projects_typed:
  "app_typed st \<Longrightarrow> app_typed (fst (post_resource ''Project'' ''projects'' projectSchema projects
                                       (\<lambda>c s. s\<lparr>projects := c\<rparr>) st b))"
  by (rule post_resource_typed) (simp_all add: app_typed_def schema_wf_projectSchema)

lemma post_teams_typed:
  "app_typed st \<Longrightarrow> app_typed (fst (post_resource ''Team'' ''teams'' (teamSchema st) teams
                                       (\<lambda>c s. s\<lparr>teams := c\<rparr>) st b))"
  by (rule post_resource_typed) (simp_all add: app_typed_def)

lemma post_tags_typed:
  "app_typed st \<Longrightarrow> app_typed (fst (post_resource ''Tag'' ''tags'' (tagSchema st) tags
                                       (\<lambda>c s. s\<lparr>tags := c\<rparr>) st b))"
  by (rule post_resource_typed) (simp_all add: app_typed_def)

lemma post_tasks_typed:
  assumes "app_typed st"
  shows "app_typed (fst (post_tasks st b))"
proof (cases "model_new ''Task'' (taskSchema st) (date_parse st) (clock st) b")
  case (Inl e)
  then show ?thesis using assms by (simp add: post_tasks_def Let_def)
next
  case (Inr d)
  have "coll_typed (taskSchema st) (tasks st @ [(next_oid st, d)])"
    using assms model_new_typed [of "taskSchema st", OF _ Inr] by (simp add: app_typed_def coll_typed_append)
  then show ?thesis using assms Inr
    by (auto simp: post_tasks_def Let_def doc_save_def app_typed_def split: option.splits)
qed

lemma signup_typed: "app_typed (fst (signup st b)) = app_typed st"
  by (auto simp: signup_def Let_def new_user_def user_save_def app_typed_def ebind_eq_Inr_iff
           split: sum.splits option.splits if_splits prod.splits)

lemma signup_pair_typed: "signup st b = (st', r) \<Longrightarrow> app_typed st \<Longrightarrow> app_typed st'"
  using signup_typed [of st b] by simp

lemma protected_typed:
  "app_typed st \<Longrightarrow> (\<And>u. app_typed (fst (handler u))) \<Longrightarrow> app_typed (fst (protected st h handler))"
  by (simp add: protected_def split: sum.splits)

lemma routes_typed:
  assumes "(k, handler) \<in> set routes" "app_typed st"
  shows "app_typed (fst (handler st h b))"
  using assms
  by (auto simp: routes_def me_def get_users_def get_collection_def get_tasks_def
           split: prod.splits
           intro!: protected_typed post_tasks_typed post_projects_typed post_teams_typed post_tags_typed
           elim: signup_pair_typed)

lemma dispatch_typed: "app_typed st \<Longrightarrow> app_typed (fst (dispatch st r))"
  by (auto simp: dispatch_def split: option.splits dest: map_of_SomeD intro: routes_typed)

lemma app_typed_empty: "app_typed empty_app"
  by (simp add: app_typed_def empty_app_def schema_wf_def taskSchema_example_def coll_typed_def)

section \<open>Typing of reachable states\<close>

text \<open>
  C39. In every state reachable from a typed initial state, by any sequence
  of requests, clock ticks and reconnections, every stored project, team, tag
  and task document is typed by its schema: each value has the type of its
  path and passes the path's validators (a project's status is one of the
  enum values), and every required path is present.
\<close>

theorem reach_typed:
  assumes "reach s0 s" "app_typed s0"
  shows "app_typed s"
  using assms by (induction rule: reach.induct) (auto intro: dispatch_typed)

theorem reach_typed_witness:
  "app_typed (fst (dispatch empty_app \<lparr>req_method = POST, path = ''/tasks'', authorization = bearer0,
                                       req_body = JObj [(''title'', JStr ''Write spec'')]\<rparr>))"
  using reach_typed [OF reach.request [OF reach.start] app_typed_empty] .

end
