(* ===== verification/Attacker.thy ===== *)
theory Attacker
  imports Gate
begin

text \<open>
  An attacker against the tokens of \<open>jwt.sign\<close> (\<open>src/index.js\<close> lines
  67-69) and the gate. The attacker sees the tokens the server hands out and
  may replay them, put any claims under a signature it has seen, sign any
  claims with a key of its own, or send arbitrary signature bytes; it does not
  know the server secret. As for the messages of security protocols, what it
  can build from a set of observed tokens is an inductive set (\<open>forge\<close>), and
  the MAC is perfect: \<open>HS256 k c\<close> is made only from \<open>k\<close> and \<open>c\<close>.
\<close>

inductive_set forge :: "string \<Rightarrow> jwt set \<Rightarrow> jwt set" for k :: string and obs :: "jwt set" where
  Inj: "t \<in> obs \<Longrightarrow> t \<in> forge k obs"
| Edit: "t \<in> forge k obs \<Longrightarrow> t\<lparr>payload := c\<rparr> \<in> forge k obs"
| Swap: "t1 \<in> forge k obs \<Longrightarrow> t2 \<in> forge k obs \<Longrightarrow> t1\<lparr>sig := sig t2\<rparr> \<in> forge k obs"
| Mac: "k' \<noteq> k \<Longrightarrow> \<lparr>payload = c, sig = HS256 k' c\<rparr> \<in> forge k obs"
| Bytes: "\<lparr>payload = c, sig = Sig_bytes s\<rparr> \<in> forge k obs"

section \<open>Lemmas\<close>

text \<open>Every signature the attacker can produce was observed, or is not a MAC under the secret.\<close>

lemma forge_sig:
  "t \<in> forge k obs \<Longrightarrow>
     sig t \<in> sig ` obs \<or> (\<exists>k' c. k' \<noteq> k \<and> sig t = HS256 k' c) \<or> (\<exists>s. sig t = Sig_bytes s)"
  by (induction rule: forge.induct) auto

text \<open>
  Against genuine tokens (each signed under the secret), a forged token the
  gate accepts carries exactly the claims of an observed token.
\<close>

lemma forge_accepted:
  assumes "\<forall>t0 \<in> obs. sig t0 = HS256 k (payload t0)" "t \<in> forge k obs"
    and "verifyToken (Some k) now (Some (''Bearer'', Compact t)) = Inr u"
  shows "\<exists>t0 \<in> obs. payload t = payload t0 \<and> u = claim_id (payload t)"
proof -
  have v: "sig t = HS256 k (payload t)" "u = claim_id (payload t)"
    using assms(3) by (auto simp: verifyToken_accepts_iff)
  then obtain t0 where "t0 \<in> obs" "sig t = sig t0"
    using forge_sig [OF assms(2)] by auto
  then show ?thesis using assms(1) v by auto
qed

end
