(* ===== verification/Traceback.thy ===== *)
theory Traceback
  imports Typing Start
begin

text \<open>
  Where stored projects come from. The only writer of the \<open>projects\<close>
  collection is the handler of \<open>POST /projects\<close> (\<open>src/index.js\<close> lines
  98-105); every other route, the CORS preflight and the 404 fallback leave
  it unchanged. Over a run of the server (\<open>serve\<close>), a project that is
  stored at the end was stored at the start, or was created by one request of
  the run: a \<open>POST /projects\<close> whose bearer token the gate accepted in the
  state it was served in, and which was answered 200 with exactly that
  document.
\<close>

section \<open>A concrete request\<close>

definition post_apollo :: request where
  "post_apollo = \<lparr>req_method = POST, path = ''/projects'', authorization = bearer0,
                   req_body = JObj [(''name'', JStr ''Apollo'')]\<rparr>"

section \<open>Lemmas\<close>

lemma post_resource_other_projects:
  "(\<And>c s. projects (upd c s) = projects s) \<Longrightarrow>
   projects (fst (post_resource model coll sch sel upd st b)) = projects st"
  using post_resource_new [of model coll sch sel upd st b] by auto

lemma post_projects_cases:
  "projects (fst (post_resource ''Project'' ''projects'' projectSchema projects (\<lambda>c s. s\<lparr>projects := c\<rparr>) st b)) = projects st \<or>
   (\<exists>d. projects (fst (post_resource ''Project'' ''projects'' projectSchema projects (\<lambda>c s. s\<lparr>projects := c\<rparr>) st b)) =
          projects st @ [(next_oid st, d)] \<and>
        snd (post_resource ''Project'' ''projects'' projectSchema projects (\<lambda>c s. s\<lparr>projects := c\<rparr>) st b) =
          Some (respond 200 (Json (doc_json (next_oid st) d))))"
  by (auto simp: post_resource_def Let_def doc_save_def split: sum.splits option.splits)

lemma signup_projects: "projects (fst (signup st b)) = projects st"
  by (auto simp: signup_def Let_def new_user_def user_save_def ebind_eq_Inr_iff
           split: sum.splits option.splits if_splits prod.splits)

lemma signup_pair_projects: "signup st b = (st', r) \<Longrightarrow> projects st' = projects st"
  using signup_projects [of st b] by simp

lemma protected_projects:
  "(\<And>u. projects (fst (handler u)) = projects st) \<Longrightarrow> projects (fst (protected st h handler)) = projects st"
  by (simp add: protected_def split: sum.splits)

lemma routes_projects:
  assumes "(k, handler) \<in> set routes" "k \<noteq> (POST, ''/projects'')"
  shows "projects (fst (handler st h b)) = projects st"
  using assms
  by (auto simp: routes_def me_def get_users_def get_collection_def get_tasks_def post_tasks_def Let_def
                 doc_save_def
           split: prod.splits sum.splits option.splits if_splits
           intro!: protected_projects post_resource_other_projects
           dest: signup_pair_projects)

lemma dispatch_projects:
  fixes s :: "'a app_scheme"
  assumes "x \<in> set (projects (fst (dispatch s r)))"
  shows "x \<in> set (projects s) \<or>
         (req_method r = POST \<and> route_path (path r) = ''/projects'' \<and>
          (\<exists>u. verifyToken (jwt_secret s) (clock s) (authorization r) = Inr u) \<and>
          snd (dispatch s r) = Some (respond 200 (Json (doc_json (fst x) (snd x)))))"
proof (cases "req_method r = OPTIONS")
  case True
  then show ?thesis using assms by (simp add: dispatch_def)
next
  case False
  show ?thesis
  proof (cases "map_of (routes :: ((http_method \<times> string) \<times> 'a handler) list) (if req_method r = HEAD then GET else req_method r, route_path (path r))")
    case None
    then show ?thesis using assms False by (simp add: dispatch_def split del: if_split)
  next
    case (Some handler)
    let ?k = "(if req_method r = HEAD then GET else req_method r, route_path (path r))"
    have d: "dispatch s r = handler s (authorization r) (body_members (req_body r))"
      using False Some by (simp add: dispatch_def split del: if_split)
    show ?thesis
    proof (cases "?k = (POST, ''/projects'')")
      case False
      then have "projects (fst (dispatch s r)) = projects s"
        using routes_projects [OF map_of_SomeD [OF Some] False] d by simp
      then show ?thesis using assms by simp
    next
      case True
      then have m: "req_method r = POST" "route_path (path r) = ''/projects''" by (auto split: if_splits)
      have h: "handler = (\<lambda>st h b. protected st h (\<lambda>_.
          post_resource ''Project'' ''projects'' projectSchema projects (\<lambda>c s. s\<lparr>projects := c\<rparr>) st b))"
        using Some True by (simp add: routes_def)
      show ?thesis
      proof (cases "verifyToken (jwt_secret s) (clock s) (authorization r)")
        case (Inl rej)
        then show ?thesis using assms d h by (simp add: protected_def)
      next
        case (Inr u)
        then show ?thesis using assms d h m post_projects_cases [of s "body_members (req_body r)"]
          by (auto simp: protected_def)
      qed
    qed
  qed
qed

lemma serve_post_apollo:
  "serve empty_app [post_apollo] =
   (empty_app\<lparr>next_oid := 1, projects := [(0, [(''name'', VStr ''Apollo''), (''status'', VStr ''Planned''),
                                                (''createdAt'', VDate 1700000000000)])]\<rparr>,
    [Some (respond 200 (Json (JObj [(''_id'', JStr ''0''), (''name'', JStr ''Apollo''), (''status'', JStr ''Planned''),
                                  (''createdAt'', JStr ''2023-11-14T22:13:20.000Z''), (''__v'', JNum 0)])))])"
  by (simp add: post_apollo_def dispatch_def routes_def route_path_def lower_char_def empty_app_def bearer0_def
                verifyToken_def protected_def post_resource_def Let_def model_new_def projectSchema_def
                init_path_def get_field_def doc_save_def dup_path_def doc_json_def iso_date_eval cong: let_weak_cong)

section \<open>Traceback\<close>

text \<open>
  C22. Every project stored after a sequence of requests was stored before
  it, or was created by one of the requests: a \<open>POST /projects\<close> that
  passed the bearer-token gate in the state it was served in and that was
  answered 200 with the stored document as JSON.
\<close>

theorem project_traceback:
  assumes "x \<in> set (projects (fst (serve st rs)))"
  shows "x \<in> set (projects st) \<or>
         (\<exists>k < length rs. req_method (rs ! k) = POST \<and> route_path (path (rs ! k)) = ''/projects'' \<and>
            (\<exists>u. verifyToken (jwt_secret (fst (serve st (take k rs)))) (clock (fst (serve st (take k rs))))
                             (authorization (rs ! k)) = Inr u) \<and>
            snd (serve st rs) ! k = Some (respond 200 (Json (doc_json (fst x) (snd x)))))"
  using assms
proof (induction rs arbitrary: st)
  case Nil
  then show ?case by simp
next
  case (Cons r rs)
  let ?s1 = "fst (dispatch st r)"
  have "x \<in> set (projects (fst (serve ?s1 rs)))" using Cons.prems by (simp only: serve_Cons_eq fst_conv)
  from Cons.IH [OF this] show ?case
  proof
    assume "x \<in> set (projects ?s1)"
    from dispatch_projects [OF this] show ?thesis
    proof
      assume "req_method r = POST \<and> route_path (path r) = ''/projects'' \<and>
          (\<exists>u. verifyToken (jwt_secret st) (clock st) (authorization r) = Inr u) \<and>
          snd (dispatch st r) = Some (respond 200 (Json (doc_json (fst x) (snd x))))"
      then show ?thesis by (intro disjI2 exI [of _ 0]) (simp add: serve_Cons_eq del: serve.simps(2))
    qed simp
  next
    assume "\<exists>k < length rs. req_method (rs ! k) = POST \<and> route_path (path (rs ! k)) = ''/projects'' \<and>
            (\<exists>u. verifyToken (jwt_secret (fst (serve ?s1 (take k rs)))) (clock (fst (serve ?s1 (take k rs))))
                             (authorization (rs ! k)) = Inr u) \<and>
            snd (serve ?s1 rs) ! k = Some (respond 200 (Json (doc_json (fst x) (snd x))))"
    then obtain k where "k < length rs" "req_method (rs ! k) = POST \<and> route_path (path (rs ! k)) = ''/projects'' \<and>
            (\<exists>u. verifyToken (jwt_secret (fst (serve ?s1 (take k rs)))) (clock (fst (serve ?s1 (take k rs))))
                             (authorization (rs ! k)) = Inr u) \<and>
            snd (serve ?s1 rs) ! k = Some (respond 200 (Json (doc_json (fst x) (snd x))))" by blast
    then show ?thesis by (intro disjI2 exI [of _ "Suc k"]) (simp add: serve_Cons_eq del: serve.simps(2))
  qed
qed

theorem project_traceback_witness:
  "\<exists>k < length [post_apollo].
     req_method ([post_apollo] ! k) = POST \<and>
     snd (serve empty_app [post_apollo]) ! k =
       Some (respond 200 (Json (doc_json 0 [(''name'', VStr ''Apollo''), (''status'', VStr ''Planned''),
                                            (''createdAt'', VDate 1700000000000)])))"
proof -
  have h: "(0, [(''name'', VStr ''Apollo''), (''status'', VStr ''Planned''), (''createdAt'', VDate 1700000000000)])
             \<in> set (projects (fst (serve empty_app [post_apollo])))"
    unfolding serve_post_apollo by simp
  show ?thesis using project_traceback [OF h] by (auto simp: empty_app_def)
qed

end
